theory Spec2Isabelle
  imports Main
begin

section \<open>Python values\<close>

text \<open>
  The program handles the values that \<^verbatim>\<open>response.json()\<close> returns and the
  dictionaries it builds from them.  A dictionary is an association list in insertion
  order (the order \<^verbatim>\<open>json.dump\<close> emits); its keys are strings, as the
  keys of every parsed JSON object are.  A float is carried as the text of its
  \<^verbatim>\<open>repr()\<close>.  A string is a list of characters, each standing for the code
  point of the same number (0 to 255).
\<close>

datatype pyval =
    PyNone
  | PyBool bool
  | PyInt int
  | PyFloat string
  | PyStr string
  | PyList "pyval list"
  | PyDict "(string \<times> pyval) list"

text \<open>
  The exceptions the program can meet.  \<open>RequestException\<close> stands for the
  transport failures of \<^verbatim>\<open>requests\<close> (connection refused, timeout, ...);
  \<open>HTTPError\<close> is raised by \<^verbatim>\<open>raise_for_status\<close> and
  \<open>JSONDecodeError\<close> by \<^verbatim>\<open>response.json()\<close>; both are subclasses of
  \<^verbatim>\<open>RequestException\<close> (the second since version 2.27 of
  \<^verbatim>\<open>requests\<close>).  The file system errors are subclasses of
  \<^verbatim>\<open>OSError\<close>, of which \<^verbatim>\<open>IOError\<close> is another name.
\<close>

datatype exn =
    RequestException
  | HTTPError int
  | JSONDecodeError
  | ValueError
  | KeyError string
  | TypeError
  | AttributeError
  | FileExistsError
  | FileNotFoundError
  | IsADirectoryError
  | NotADirectoryError
  | PermissionError
  | SameFileError

fun is_RequestException :: "exn \<Rightarrow> bool" where
  "is_RequestException RequestException = True"
| "is_RequestException (HTTPError st) = True"
| "is_RequestException JSONDecodeError = True"
| "is_RequestException e = False"

fun is_OSError :: "exn \<Rightarrow> bool" where
  "is_OSError FileExistsError = True"
| "is_OSError FileNotFoundError = True"
| "is_OSError IsADirectoryError = True"
| "is_OSError NotADirectoryError = True"
| "is_OSError PermissionError = True"
| "is_OSError SameFileError = True"
| "is_OSError e = False"

text \<open>Truth value testing, as \<^verbatim>\<open>not v\<close> uses it.\<close>

fun truthy :: "pyval \<Rightarrow> bool" where
  "truthy PyNone = False"
| "truthy (PyBool b) = b"
| "truthy (PyInt i) = (i \<noteq> 0)"
| "truthy (PyFloat r) = (r \<noteq> ''0.0'' \<and> r \<noteq> ''-0.0'')"
| "truthy (PyStr s) = (s \<noteq> [])"
| "truthy (PyList xs) = (xs \<noteq> [])"
| "truthy (PyDict kvs) = (kvs \<noteq> [])"

text \<open>\<^verbatim>\<open>v.get(key, default)\<close>: only a dictionary has the method.\<close>

fun py_get :: "pyval \<Rightarrow> string \<Rightarrow> pyval \<Rightarrow> exn + pyval" where
  "py_get (PyDict kvs) k d = Inr (case map_of kvs k of None \<Rightarrow> d | Some v \<Rightarrow> v)"
| "py_get v k d = Inl AttributeError"

text \<open>\<^verbatim>\<open>v[key]\<close> with a string key: a missing key of a dictionary raises
  \<^verbatim>\<open>KeyError\<close>, every other value raises \<^verbatim>\<open>TypeError\<close>.\<close>

fun py_getitem :: "pyval \<Rightarrow> string \<Rightarrow> exn + pyval" where
  "py_getitem (PyDict kvs) k = (case map_of kvs k of None \<Rightarrow> Inl (KeyError k) | Some v \<Rightarrow> Inr v)"
| "py_getitem v k = Inl TypeError"

text \<open>\<^verbatim>\<open>len(v)\<close>.\<close>

fun py_len :: "pyval \<Rightarrow> exn + nat" where
  "py_len (PyStr s) = Inr (length s)"
| "py_len (PyList xs) = Inr (length xs)"
| "py_len (PyDict kvs) = Inr (length kvs)"
| "py_len v = Inl TypeError"

text \<open>What \<^verbatim>\<open>for x in v\<close> iterates over: the elements of a list, the keys of
  a dictionary, the characters of a string.\<close>

fun py_iter :: "pyval \<Rightarrow> exn + pyval list" where
  "py_iter (PyList xs) = Inr xs"
| "py_iter (PyDict kvs) = Inr (map (\<lambda>kv. PyStr (fst kv)) kvs)"
| "py_iter (PyStr s) = Inr (map (\<lambda>c. PyStr [c]) s)"
| "py_iter v = Inl TypeError"

section \<open>Rendering values as text\<close>

definition digit_char :: "nat \<Rightarrow> char" where
  "digit_char n = ''0123456789abcdef'' ! n"

function show_nat :: "nat \<Rightarrow> string" where
  "show_nat n = (if n < 10 then [digit_char n] else show_nat (n div 10) @ [digit_char (n mod 10)])"
  by pat_completeness auto
termination
  by (relation "measure id") auto

declare show_nat.simps [simp del]

definition show_int :: "int \<Rightarrow> string" where
  "show_int i = (if i < 0 then CHR ''-'' # show_nat (nat (- i)) else show_nat (nat i))"

definition hex2 :: "nat \<Rightarrow> string" where
  "hex2 n = [digit_char (n div 16), digit_char (n mod 16)]"

fun intercalate :: "string \<Rightarrow> string list \<Rightarrow> string" where
  "intercalate sep [] = []"
| "intercalate sep [x] = x"
| "intercalate sep (x # y # ys) = x @ sep @ intercalate sep (y # ys)"

text \<open>\<^verbatim>\<open>repr()\<close> of a string: single quotes unless the string has a single quote
  and no double quote; the quote and the backslash escaped, tab, newline and carriage
  return by their letters, every other unprintable character as \<^verbatim>\<open>\xhh\<close>.\<close>

definition repr_char :: "char \<Rightarrow> char \<Rightarrow> string" where
  "repr_char q c =
     (let n = (of_char c :: nat) in
      if c = q \<or> c = CHR 0x5C then [CHR 0x5C, c]
      else if n = 9 then [CHR 0x5C, CHR ''t'']
      else if n = 10 then [CHR 0x5C, CHR ''n'']
      else if n = 13 then [CHR 0x5C, CHR ''r'']
      else if n < 32 \<or> n = 127 \<or> (128 \<le> n \<and> n \<le> 160) \<or> n = 173
        then [CHR 0x5C, CHR ''x''] @ hex2 n
      else [c])"

definition repr_str :: "string \<Rightarrow> string" where
  "repr_str s =
     (let q = (if CHR 0x27 \<in> set s \<and> CHR 0x22 \<notin> set s then CHR 0x22 else CHR 0x27)
      in q # concat (map (repr_char q) s) @ [q])"

fun py_repr :: "pyval \<Rightarrow> string" where
  "py_repr PyNone = ''None''"
| "py_repr (PyBool b) = (if b then ''True'' else ''False'')"
| "py_repr (PyInt i) = show_int i"
| "py_repr (PyFloat r) = r"
| "py_repr (PyStr s) = repr_str s"
| "py_repr (PyList xs) = ''['' @ intercalate '', '' (map py_repr xs) @ '']''"
| "py_repr (PyDict kvs) =
     ''{'' @ intercalate '', '' (map (\<lambda>kv. repr_str (fst kv) @ '': '' @ py_repr (snd kv)) kvs) @ ''}''"

text \<open>\<^verbatim>\<open>str()\<close>, which an f-string applies to each value it interpolates.\<close>

fun py_str :: "pyval \<Rightarrow> string" where
  "py_str (PyStr s) = s"
| "py_str v = py_repr v"

text \<open>\<^verbatim>\<open>json.dump(v, f, indent=2)\<close>: strings are escaped to ASCII, every element
  of a non-empty list or dictionary is on a line of its own, two spaces deeper than its
  container; the separators are \<^verbatim>\<open>,\<close> and \<^verbatim>\<open>: \<close>.\<close>

definition json_char :: "char \<Rightarrow> string" where
  "json_char c =
     (let n = (of_char c :: nat) in
      if c = CHR 0x22 \<or> c = CHR 0x5C then [CHR 0x5C, c]
      else if n = 8 then [CHR 0x5C, CHR ''b'']
      else if n = 9 then [CHR 0x5C, CHR ''t'']
      else if n = 10 then [CHR 0x5C, CHR ''n'']
      else if n = 12 then [CHR 0x5C, CHR ''f'']
      else if n = 13 then [CHR 0x5C, CHR ''r'']
      else if n < 32 \<or> 127 \<le> n then [CHR 0x5C, CHR ''u'', CHR ''0'', CHR ''0''] @ hex2 n
      else [c])"

definition json_string :: "string \<Rightarrow> string" where
  "json_string s = CHR 0x22 # concat (map json_char s) @ [CHR 0x22]"

definition newline_indent :: "nat \<Rightarrow> string" where
  "newline_indent level = CHR 0x0A # replicate (2 * level) CHR '' ''"

fun json_encode :: "nat \<Rightarrow> pyval \<Rightarrow> string" where
  "json_encode level PyNone = ''null''"
| "json_encode level (PyBool b) = (if b then ''true'' else ''false'')"
| "json_encode level (PyInt i) = show_int i"
| "json_encode level (PyFloat r) =
     (if r = ''nan'' then ''NaN'' else if r = ''inf'' then ''Infinity''
      else if r = ''-inf'' then ''-Infinity'' else r)"
| "json_encode level (PyStr s) = json_string s"
| "json_encode level (PyList xs) =
     (if xs = [] then ''[]''
      else ''['' @ newline_indent (Suc level)
        @ intercalate ('','' @ newline_indent (Suc level)) (map (json_encode (Suc level)) xs)
        @ newline_indent level @ '']'')"
| "json_encode level (PyDict kvs) =
     (if kvs = [] then ''{}''
      else ''{'' @ newline_indent (Suc level)
        @ intercalate ('','' @ newline_indent (Suc level))
            (map (\<lambda>kv. json_string (fst kv) @ '': '' @ json_encode (Suc level) (snd kv)) kvs)
        @ newline_indent level @ ''}'')"

definition json_dumps :: "pyval \<Rightarrow> string" where
  "json_dumps v = json_encode 0 v"

section \<open>The registry's HTTP interface\<close>

text \<open>
  The registry is the environment: it answers each request either with a transport
  failure (\<^verbatim>\<open>session.get\<close> or \<^verbatim>\<open>session.post\<close> raises a
  \<^verbatim>\<open>RequestException\<close>) or with a response, of which the program reads the status
  code and the body as \<^verbatim>\<open>response.json()\<close> decodes it.  A registry state is a
  function from requests to answers.
\<close>

datatype http_method = GET | POST

datatype request = Request http_method string "(string \<times> pyval) list"

datatype body = NotJson | Json pyval

datatype http_result = ConnectionFailed | Reply int body

type_synonym registry = "request \<Rightarrow> http_result"

type_synonym response = "int \<times> body"

definition session_post :: "registry \<Rightarrow> string \<Rightarrow> (string \<times> pyval) list \<Rightarrow> exn + response" where
  "session_post reg url form =
     (case reg (Request POST url form) of
        ConnectionFailed \<Rightarrow> Inl RequestException
      | Reply st b \<Rightarrow> Inr (st, b))"

definition session_get :: "registry \<Rightarrow> string \<Rightarrow> (string \<times> pyval) list \<Rightarrow> exn + response" where
  "session_get reg url params =
     (case reg (Request GET url params) of
        ConnectionFailed \<Rightarrow> Inl RequestException
      | Reply st b \<Rightarrow> Inr (st, b))"

text \<open>\<^verbatim>\<open>response.raise_for_status()\<close> raises for the client and server error
  codes, 400 to 599, and for no other status.\<close>

definition raise_for_status :: "response \<Rightarrow> exn + unit" where
  "raise_for_status r = (if 400 \<le> fst r \<and> fst r < 600 then Inl (HTTPError (fst r)) else Inr ())"

definition response_json :: "response \<Rightarrow> exn + pyval" where
  "response_json r = (case snd r of NotJson \<Rightarrow> Inl JSONDecodeError | Json v \<Rightarrow> Inr v)"

section \<open>NacosConfig and NacosClient\<close>

record NacosConfig =
  server :: string
  namespace :: string
  username :: string
  password :: string
  group_name :: string
  token :: pyval

definition getenv :: "(string \<rightharpoonup> string) \<Rightarrow> string \<Rightarrow> string \<Rightarrow> string" where
  "getenv env k d = (case env k of None \<Rightarrow> d | Some v \<Rightarrow> v)"

definition NacosConfig_init :: "(string \<rightharpoonup> string) \<Rightarrow> NacosConfig" where
  "NacosConfig_init env =
     \<lparr> server = getenv env ''NACOS_SERVER'' ''http://127.0.0.1:8848'',
       namespace = getenv env ''NACOS_NAMESPACE'' ''dev'',
       username = getenv env ''NACOS_USERNAME'' ''nacos'',
       password = getenv env ''NACOS_PASSWORD'' ''nacos'',
       group_name = getenv env ''GROUP_NAME'' ''DEFAULT_GROUP'',
       token = PyStr [] \<rparr>"

text \<open>A line of the log: its level and text; an error line keeps the exception whose
  \<^verbatim>\<open>str()\<close> the program appends to the text.\<close>

datatype log_entry = LogInfo string | LogError string exn

text \<open>
  Each method is the body of its \<^verbatim>\<open>try\<close> block, whose result is an exception
  or a value, and the \<^verbatim>\<open>except RequestException\<close> handler around it.  A
  method returns, beside its result, the lines it logs.  The configuration object is
  shared with the caller, so \<open>authenticate\<close> returns it as it leaves it, also when
  it raises.
\<close>

definition authenticate_try :: "registry \<Rightarrow> NacosConfig \<Rightarrow> (exn + unit) \<times> NacosConfig" where
  "authenticate_try reg config =
     (let auth_url = server config @ ''/nacos/v1/auth/login'';
          auth_data = [(''username'', PyStr (username config)),
                       (''password'', PyStr (password config))]
      in case session_post reg auth_url auth_data of
           Inl e \<Rightarrow> (Inl e, config)
         | Inr response \<Rightarrow>
            (case raise_for_status response of
               Inl e \<Rightarrow> (Inl e, config)
             | Inr u \<Rightarrow>
                (case response_json response of
                   Inl e \<Rightarrow> (Inl e, config)
                 | Inr j \<Rightarrow>
                    (case py_get j ''accessToken'' PyNone of
                       Inl e \<Rightarrow> (Inl e, config)
                     | Inr t \<Rightarrow>
                        (let config' = config\<lparr>token := t\<rparr>
                         in if \<not> truthy (token config') then (Inl ValueError, config')
                            else (Inr (), config'))))))"

definition authenticate ::
  "registry \<Rightarrow> NacosConfig \<Rightarrow> (exn + unit) \<times> NacosConfig \<times> log_entry list" where
  "authenticate reg config =
     (case authenticate_try reg config of
        (Inr u, config') \<Rightarrow>
          (Inr u, config', [LogInfo ''Successfully authenticated with Nacos server''])
      | (Inl e, config') \<Rightarrow>
          if is_RequestException e
          then (Inl e, config', [LogError ''Authentication failed: '' e])
          else (Inl e, config', []))"

definition get_services_try :: "registry \<Rightarrow> NacosConfig \<Rightarrow> exn + pyval \<times> log_entry" where
  "get_services_try reg config =
     (case session_get reg (server config @ ''/nacos/v1/ns/service/list'')
             [(''namespaceId'', PyStr (namespace config)),
              (''groupName'', PyStr (group_name config)),
              (''pageNo'', PyInt 1),
              (''pageSize'', PyInt 100),
              (''accessToken'', token config)] of
        Inl e \<Rightarrow> Inl e
      | Inr response \<Rightarrow>
         (case raise_for_status response of
            Inl e \<Rightarrow> Inl e
          | Inr u \<Rightarrow>
             (case response_json response of
                Inl e \<Rightarrow> Inl e
              | Inr j \<Rightarrow>
                 (case py_get j ''doms'' (PyList []) of
                    Inl e \<Rightarrow> Inl e
                  | Inr services \<Rightarrow>
                     (case py_len services of
                        Inl e \<Rightarrow> Inl e
                      | Inr n \<Rightarrow>
                         Inr (services, LogInfo (''Retrieved '' @ show_nat n @ '' services'')))))))"

definition get_services ::
  "registry \<Rightarrow> NacosConfig \<Rightarrow> (exn + pyval) \<times> log_entry list" where
  "get_services reg config =
     (case get_services_try reg config of
        Inr (services, line) \<Rightarrow> (Inr services, [line])
      | Inl e \<Rightarrow>
          if is_RequestException e
          then (Inr (PyList []), [LogError ''Failed to fetch services: '' e])
          else (Inl e, []))"

definition get_service_instances_try ::
  "registry \<Rightarrow> NacosConfig \<Rightarrow> pyval \<Rightarrow> exn + pyval \<times> log_entry" where
  "get_service_instances_try reg config service_name =
     (case session_get reg (server config @ ''/nacos/v1/ns/instance/list'')
             [(''namespaceId'', PyStr (namespace config)),
              (''serviceName'', service_name),
              (''groupName'', PyStr (group_name config)),
              (''clusters'', PyStr []),
              (''healthyOnly'', PyBool False),
              (''accessToken'', token config)] of
        Inl e \<Rightarrow> Inl e
      | Inr response \<Rightarrow>
         (case raise_for_status response of
            Inl e \<Rightarrow> Inl e
          | Inr u \<Rightarrow>
             (case response_json response of
                Inl e \<Rightarrow> Inl e
              | Inr j \<Rightarrow>
                 (case py_get j ''hosts'' (PyList []) of
                    Inl e \<Rightarrow> Inl e
                  | Inr instances \<Rightarrow>
                     (case py_len instances of
                        Inl e \<Rightarrow> Inl e
                      | Inr n \<Rightarrow>
                         Inr (instances,
                              LogInfo (''Retrieved '' @ show_nat n @ '' instances for service ''
                                       @ py_str service_name)))))))"

definition get_service_instances ::
  "registry \<Rightarrow> NacosConfig \<Rightarrow> pyval \<Rightarrow> (exn + pyval) \<times> log_entry list" where
  "get_service_instances reg config service_name =
     (case get_service_instances_try reg config service_name of
        Inr (instances, line) \<Rightarrow> (Inr instances, [line])
      | Inl e \<Rightarrow>
          if is_RequestException e
          then (Inr (PyList []),
                [LogError (''Failed to fetch instances for '' @ py_str service_name @ '': '') e])
          else (Inl e, []))"

text \<open>The requests the three methods send, named for the statements about registry
  states.\<close>

definition login_request :: "NacosConfig \<Rightarrow> request" where
  "login_request config =
     Request POST (server config @ ''/nacos/v1/auth/login'')
       [(''username'', PyStr (username config)), (''password'', PyStr (password config))]"

definition services_request :: "NacosConfig \<Rightarrow> request" where
  "services_request config =
     Request GET (server config @ ''/nacos/v1/ns/service/list'')
       [(''namespaceId'', PyStr (namespace config)),
        (''groupName'', PyStr (group_name config)),
        (''pageNo'', PyInt 1),
        (''pageSize'', PyInt 100),
        (''accessToken'', token config)]"

definition instances_request :: "NacosConfig \<Rightarrow> pyval \<Rightarrow> request" where
  "instances_request config service_name =
     Request GET (server config @ ''/nacos/v1/ns/instance/list'')
       [(''namespaceId'', PyStr (namespace config)),
        (''serviceName'', service_name),
        (''groupName'', PyStr (group_name config)),
        (''clusters'', PyStr []),
        (''healthyOnly'', PyBool False),
        (''accessToken'', token config)]"

section \<open>PrometheusConfigGenerator\<close>

text \<open>The f-string \<^verbatim>\<open>f"{instance['ip']}:{instance['port']}"\<close>.\<close>

definition address :: "pyval \<Rightarrow> exn + string" where
  "address instance =
     (case py_getitem instance ''ip'' of
        Inl e \<Rightarrow> Inl e
      | Inr ip \<Rightarrow>
         (case py_getitem instance ''port'' of
            Inl e \<Rightarrow> Inl e
          | Inr port \<Rightarrow> Inr (py_str ip @ '':'' @ py_str port)))"

text \<open>The dictionary appended for one instance.\<close>

definition make_target :: "pyval \<Rightarrow> pyval \<Rightarrow> exn + pyval" where
  "make_target instance service_name =
     (case address instance of
        Inl e \<Rightarrow> Inl e
      | Inr a1 \<Rightarrow>
         (case address instance of
            Inl e \<Rightarrow> Inl e
          | Inr a2 \<Rightarrow>
             Inr (PyDict [(''targets'', PyList [PyStr a1]),
                          (''labels'', PyDict [(''instance'', PyStr a2),
                                               (''job'', PyStr ''nacos-discovery''),
                                               (''service'', service_name)])])))"

fun generate_target_config_loop :: "pyval list \<Rightarrow> pyval \<Rightarrow> pyval list \<Rightarrow> exn + pyval list" where
  "generate_target_config_loop [] service_name targets = Inr targets"
| "generate_target_config_loop (instance # rest) service_name targets =
     (case make_target instance service_name of
        Inl e \<Rightarrow> Inl e
      | Inr t \<Rightarrow> generate_target_config_loop rest service_name (targets @ [t]))"

definition generate_target_config :: "pyval \<Rightarrow> pyval \<Rightarrow> exn + pyval list" where
  "generate_target_config instances service_name =
     (case py_iter instances of
        Inl e \<Rightarrow> Inl e
      | Inr xs \<Rightarrow> generate_target_config_loop xs service_name [])"

section \<open>The file system\<close>

text \<open>
  The part of the file system that \<^verbatim>\<open>save_config\<close> touches: the directories,
  the files with their contents, and the names the process may not create or write.  A
  path is the string the program passes, split at its slashes as
  \<^verbatim>\<open>os.path\<close> does; a name is used as it is written (the paths of
  \<^verbatim>\<open>main\<close> are literals of the form \<^verbatim>\<open>./a/b\<close>): a second
  spelling of a path, or a name with a slash at its end, is another name here, where
  the operating system would find the same entry.  The current
  directory and the root always exist.  Failures of the device (a full disk, an I/O
  error) and concurrent changes by other processes are outside this model.
\<close>

record filesystem =
  dirs :: "string set"
  files :: "string \<rightharpoonup> string"
  denied :: "string set"

definition after_last_slash :: "string \<Rightarrow> nat" where
  "after_last_slash p = length p - length (takeWhile (\<lambda>c. c \<noteq> CHR ''/'') (rev p))"

definition rstrip_slash :: "string \<Rightarrow> string" where
  "rstrip_slash s = rev (dropWhile (\<lambda>c. c = CHR ''/'') (rev s))"

definition path_split :: "string \<Rightarrow> string \<times> string" where
  "path_split p =
     (let i = after_last_slash p; head = take i p; tail = drop i p
      in (if head \<noteq> [] \<and> head \<noteq> replicate (length head) CHR ''/''
          then rstrip_slash head else head, tail))"

definition path_dirname :: "string \<Rightarrow> string" where
  "path_dirname p = fst (path_split p)"

definition path_basename :: "string \<Rightarrow> string" where
  "path_basename p = drop (after_last_slash p) p"

definition path_join :: "string \<Rightarrow> string \<Rightarrow> string" where
  "path_join a b =
     (if b \<noteq> [] \<and> hd b = CHR ''/'' then b
      else if a = [] \<or> last a = CHR ''/'' then a @ b
      else a @ ''/'' @ b)"

definition is_dir :: "filesystem \<Rightarrow> string \<Rightarrow> bool" where
  "is_dir fs p = (p = ''.'' \<or> p = ''/'' \<or> p \<in> dirs fs)"

definition path_exists :: "filesystem \<Rightarrow> string \<Rightarrow> bool" where
  "path_exists fs p = (is_dir fs p \<or> files fs p \<noteq> None)"

text \<open>\<^verbatim>\<open>os.mkdir(name)\<close>.\<close>

definition mkdir :: "filesystem \<Rightarrow> string \<Rightarrow> exn + filesystem" where
  "mkdir fs name =
     (let parent = path_dirname name in
      if name = [] then Inl FileNotFoundError
      else if parent \<noteq> [] \<and> \<not> path_exists fs parent then Inl FileNotFoundError
      else if parent \<noteq> [] \<and> \<not> is_dir fs parent then Inl NotADirectoryError
      else if path_exists fs name then Inl FileExistsError
      else if name \<in> denied fs then Inl PermissionError
      else Inr (fs\<lparr>dirs := insert name (dirs fs)\<rparr>))"

text \<open>The last step of \<^verbatim>\<open>os.makedirs(name, exist_ok=True)\<close>: an error of
  \<^verbatim>\<open>mkdir\<close> is dropped when the directory is there.  The result is paired
  with the file system as the call leaves it.\<close>

definition mkdir_exist_ok :: "filesystem \<Rightarrow> string \<Rightarrow> (exn + unit) \<times> filesystem" where
  "mkdir_exist_ok fs name =
     (case mkdir fs name of
        Inl e \<Rightarrow> if is_dir fs name then (Inr (), fs) else (Inl e, fs)
      | Inr fs' \<Rightarrow> (Inr (), fs'))"

definition makedirs_split :: "string \<Rightarrow> string \<times> string" where
  "makedirs_split name =
     (if snd (path_split name) = [] then path_split (fst (path_split name))
      else path_split name)"

lemma rstrip_slash_length: "length (rstrip_slash h) \<le> length h"
  using length_dropWhile_le [of "\<lambda>c. c = CHR ''/''" "rev h"]
  by (simp add: rstrip_slash_def)

lemma path_split_length: "length (fst (path_split p)) + length (snd (path_split p)) \<le> length p"
proof -
  let ?i = "after_last_slash p"
  have "length (fst (path_split p)) \<le> length (take ?i p)"
    using rstrip_slash_length [of "take ?i p"]
    by (simp add: path_split_def Let_def del: length_take)
  moreover have "length (snd (path_split p)) = length (drop ?i p)"
    by (simp add: path_split_def Let_def)
  moreover have "length (take ?i p) + length (drop ?i p) = length p"
    by simp
  ultimately show ?thesis
    by linarith
qed

lemma makedirs_split_shorter:
  assumes "snd (makedirs_split name) \<noteq> []"
  shows "length (fst (makedirs_split name)) < length name"
proof (cases "snd (path_split name) = []")
  case True
  let ?h = "fst (path_split name)"
  from True assms have "snd (path_split ?h) \<noteq> []"
    by (simp add: makedirs_split_def)
  then have "0 < length (snd (path_split ?h))"
    by simp
  with path_split_length [of ?h] path_split_length [of name]
  have "length (fst (path_split ?h)) < length name"
    by linarith
  with True show ?thesis
    by (simp add: makedirs_split_def)
next
  case False
  then have "0 < length (snd (path_split name))"
    by simp
  with path_split_length [of name] have "length (fst (path_split name)) < length name"
    by linarith
  with False show ?thesis
    by (simp add: makedirs_split_def)
qed

text \<open>\<^verbatim>\<open>os.makedirs(name, exist_ok=True)\<close>: the missing ancestors first, then
  the directory itself.  When it raises, the ancestors it has created stay.\<close>

function makedirs :: "filesystem \<Rightarrow> string \<Rightarrow> (exn + unit) \<times> filesystem" where
  "makedirs fs name =
     (let head = fst (makedirs_split name); tail = snd (makedirs_split name) in
      if head \<noteq> [] \<and> tail \<noteq> [] \<and> \<not> path_exists fs head then
        (case makedirs fs head of
           (Inl e, fs') \<Rightarrow>
             if e = FileExistsError
             then (if tail = ''.'' then (Inr (), fs') else mkdir_exist_ok fs' name)
             else (Inl e, fs')
         | (Inr u, fs') \<Rightarrow> if tail = ''.'' then (Inr (), fs') else mkdir_exist_ok fs' name)
      else mkdir_exist_ok fs name)"
  by pat_completeness auto
termination
  by (relation "measure (\<lambda>(fs, name). length name)") (auto simp: makedirs_split_shorter)

declare makedirs.simps [simp del]

text \<open>\<^verbatim>\<open>open(p, 'w')\<close>, the write of the whole content and the close.\<close>

definition open_write :: "filesystem \<Rightarrow> string \<Rightarrow> string \<Rightarrow> exn + filesystem" where
  "open_write fs p content =
     (let parent = path_dirname p in
      if p = [] then Inl FileNotFoundError
      else if parent \<noteq> [] \<and> \<not> path_exists fs parent then Inl FileNotFoundError
      else if parent \<noteq> [] \<and> \<not> is_dir fs parent then Inl NotADirectoryError
      else if is_dir fs p then Inl IsADirectoryError
      else if p \<in> denied fs then Inl PermissionError
      else Inr (fs\<lparr>files := (files fs)(p \<mapsto> content)\<rparr>))"

text \<open>Where \<^verbatim>\<open>shutil.copy(src, dst)\<close> writes: into \<open>dst\<close> under the base name of
  \<open>src\<close> when \<open>dst\<close> is a directory, to \<open>dst\<close> otherwise.\<close>

definition copy_destination :: "filesystem \<Rightarrow> string \<Rightarrow> string \<Rightarrow> string" where
  "copy_destination fs src dst = (if is_dir fs dst then path_join dst (path_basename src) else dst)"

definition shutil_copy :: "filesystem \<Rightarrow> string \<Rightarrow> string \<Rightarrow> exn + filesystem" where
  "shutil_copy fs src dst =
     (let dst' = copy_destination fs src dst in
      if src = dst' \<and> path_exists fs src then Inl SameFileError
      else if is_dir fs src then Inl IsADirectoryError
      else (case files fs src of
              None \<Rightarrow> Inl FileNotFoundError
            | Some content \<Rightarrow> open_write fs dst' content))"

section \<open>save_config and main\<close>

definition save_config_try ::
  "pyval list \<Rightarrow> string \<Rightarrow> string \<Rightarrow> filesystem \<Rightarrow> (exn + unit) \<times> filesystem \<times> log_entry list" where
  "save_config_try targets output_path config_dir fs =
     (case makedirs fs config_dir of
        (Inl e, fs1) \<Rightarrow> (Inl e, fs1, [])
      | (Inr u, fs1) \<Rightarrow>
         (case open_write fs1 output_path (json_dumps (PyList targets)) of
            Inl e \<Rightarrow> (Inl e, fs1, [])
          | Inr fs2 \<Rightarrow>
             (let written = LogInfo (''Configuration written to '' @ output_path);
                  dest_path = path_join config_dir (path_basename output_path)
              in case shutil_copy fs2 output_path dest_path of
                   Inl e \<Rightarrow> (Inl e, fs2, [written])
                 | Inr fs3 \<Rightarrow>
                     (Inr (), fs3,
                      [written, LogInfo (''Configuration copied to '' @ dest_path)]))))"

definition save_config ::
  "pyval list \<Rightarrow> string \<Rightarrow> string \<Rightarrow> filesystem \<Rightarrow> (exn + unit) \<times> filesystem \<times> log_entry list" where
  "save_config targets output_path config_dir fs =
     (case save_config_try targets output_path config_dir fs of
        (Inr u, fs', lines) \<Rightarrow> (Inr u, fs', lines)
      | (Inl e, fs', lines) \<Rightarrow>
          if is_OSError e
          then (Inl e, fs', lines @ [LogError ''Failed to save or copy configuration: '' e])
          else (Inl e, fs', lines))"

text \<open>The loop of \<^verbatim>\<open>main\<close> over the service names, with the targets collected
  so far.\<close>

fun main_loop ::
  "registry \<Rightarrow> NacosConfig \<Rightarrow> pyval list \<Rightarrow> pyval list \<Rightarrow> (exn + pyval list) \<times> log_entry list" where
  "main_loop reg config [] all_targets = (Inr all_targets, [])"
| "main_loop reg config (service_name # rest) all_targets =
     (case get_service_instances reg config service_name of
        (Inl e, lines) \<Rightarrow> (Inl e, lines)
      | (Inr instances, lines) \<Rightarrow>
         (case generate_target_config instances service_name of
            Inl e \<Rightarrow> (Inl e, lines)
          | Inr targets \<Rightarrow>
             (case main_loop reg config rest (all_targets @ targets) of
                (r, lines') \<Rightarrow> (r, lines @ lines'))))"

text \<open>One cycle.  \<open>env\<close> is the process environment, \<open>reg\<close> the registry state and
  \<open>fs\<close> the file system the cycle starts from; the cycle returns the exception it
  raises or \<open>()\<close>, the file system as it leaves it and the lines it logs.\<close>

definition main_try ::
  "(string \<rightharpoonup> string) \<Rightarrow> registry \<Rightarrow> filesystem \<Rightarrow> (exn + unit) \<times> filesystem \<times> log_entry list" where
  "main_try env reg fs =
     (case authenticate reg (NacosConfig_init env) of
        (Inl e, config, l1) \<Rightarrow> (Inl e, fs, l1)
      | (Inr u, config, l1) \<Rightarrow>
         (case get_services reg config of
            (Inl e, l2) \<Rightarrow> (Inl e, fs, l1 @ l2)
          | (Inr services, l2) \<Rightarrow>
             (case py_iter services of
                Inl e \<Rightarrow> (Inl e, fs, l1 @ l2)
              | Inr names \<Rightarrow>
                 (case main_loop reg config names [] of
                    (Inl e, l3) \<Rightarrow> (Inl e, fs, l1 @ l2 @ l3)
                  | (Inr all_targets, l3) \<Rightarrow>
                     (case save_config all_targets ''./app/services.json'' ''./prometheus/conf'' fs of
                        (Inl e, fs', l4) \<Rightarrow> (Inl e, fs', l1 @ l2 @ l3 @ l4)
                      | (Inr u', fs', l4) \<Rightarrow>
                          (Inr (), fs',
                           l1 @ l2 @ l3 @ l4 @
                           [LogInfo ''Service discovery and configuration generation completed successfully'']))))))"

definition main ::
  "(string \<rightharpoonup> string) \<Rightarrow> registry \<Rightarrow> filesystem \<Rightarrow> (exn + unit) \<times> filesystem \<times> log_entry list" where
  "main env reg fs =
     (case main_try env reg fs of
        (Inr u, fs', lines) \<Rightarrow> (Inr u, fs', lines)
      | (Inl e, fs', lines) \<Rightarrow>
          (Inl e, fs', lines @ [LogError ''An error occurred during execution: '' e]))"

section \<open>Vocabulary of the statements\<close>

text \<open>An instance record is a dictionary; it has a field when the key is present.\<close>

fun is_record :: "pyval \<Rightarrow> bool" where
  "is_record (PyDict kvs) = True"
| "is_record v = False"

fun has_field :: "pyval \<Rightarrow> string \<Rightarrow> bool" where
  "has_field (PyDict kvs) k = (map_of kvs k \<noteq> None)"
| "has_field v k = False"

fun field :: "pyval \<Rightarrow> string \<Rightarrow> pyval" where
  "field (PyDict kvs) k = (case map_of kvs k of None \<Rightarrow> PyNone | Some v \<Rightarrow> v)"
| "field v k = PyNone"

text \<open>The ScrapeTarget of the specification for an instance and a service name: a
  one-element list with \<open>ip:port\<close> and the labels \<open>instance\<close>, \<open>job\<close> and
  \<open>service\<close>.  It is compared below with what \<open>make_target\<close> builds.\<close>

definition scrape_target :: "pyval \<Rightarrow> pyval \<Rightarrow> pyval" where
  "scrape_target instance service_name =
     (let a = py_str (field instance ''ip'') @ '':'' @ py_str (field instance ''port'')
      in PyDict [(''targets'', PyList [PyStr a]),
                 (''labels'', PyDict [(''instance'', PyStr a),
                                      (''job'', PyStr ''nacos-discovery''),
                                      (''service'', service_name)])])"

text \<open>The configuration as the cycle's authentication leaves it.\<close>

definition cycle_config :: "(string \<rightharpoonup> string) \<Rightarrow> registry \<Rightarrow> NacosConfig" where
  "cycle_config env reg = fst (snd (authenticate reg (NacosConfig_init env)))"

text \<open>The body of the loop of \<open>main\<close> for one service, without the log.\<close>

definition service_targets :: "registry \<Rightarrow> NacosConfig \<Rightarrow> pyval \<Rightarrow> exn + pyval list" where
  "service_targets reg config service_name =
     (case fst (get_service_instances reg config service_name) of
        Inl e \<Rightarrow> Inl e
      | Inr instances \<Rightarrow> generate_target_config instances service_name)"

text \<open>The document of a cycle: the list of targets that \<open>main\<close> has collected
  when it calls \<open>save_config\<close>, or the exception that ends the cycle before.  It is
  a function of the environment and the registry state.\<close>

definition cycle_document :: "(string \<rightharpoonup> string) \<Rightarrow> registry \<Rightarrow> exn + pyval list" where
  "cycle_document env reg =
     (case fst (authenticate reg (NacosConfig_init env)) of
        Inl e \<Rightarrow> Inl e
      | Inr u \<Rightarrow>
         (case fst (get_services reg (cycle_config env reg)) of
            Inl e \<Rightarrow> Inl e
          | Inr services \<Rightarrow>
             (case py_iter services of
                Inl e \<Rightarrow> Inl e
              | Inr names \<Rightarrow> fst (main_loop reg (cycle_config env reg) names []))))"

text \<open>An answer that is a transport failure or carries an error status.\<close>

fun transport_or_http_error :: "http_result \<Rightarrow> bool" where
  "transport_or_http_error ConnectionFailed = True"
| "transport_or_http_error (Reply st b) = (400 \<le> st \<and> st < 600)"

text \<open>The two paths of \<open>main\<close>, and the path of the copy.\<close>

definition working_file :: string where
  "working_file = ''./app/services.json''"

definition watched_dir :: string where
  "watched_dir = ''./prometheus/conf''"

definition watched_copy :: string where
  "watched_copy = ''./prometheus/conf/services.json''"

text \<open>A file system on which \<open>save_config\<close> with the paths of \<open>main\<close> meets no
  obstacle: \<^verbatim>\<open>./app\<close> is a directory, no directory has the name of one of the
  two files, no file has the name of the watched directory or of its parent, and none
  of the four names is denied.\<close>

definition fs_ready :: "filesystem \<Rightarrow> bool" where
  "fs_ready fs =
     (''./app'' \<in> dirs fs \<and> working_file \<notin> dirs fs \<and> watched_copy \<notin> dirs fs
      \<and> files fs ''./prometheus'' = None \<and> files fs watched_dir = None
      \<and> ''./prometheus'' \<notin> denied fs \<and> watched_dir \<notin> denied fs
      \<and> working_file \<notin> denied fs \<and> watched_copy \<notin> denied fs)"

text \<open>A text from its lines.\<close>

definition lines_text :: "string list \<Rightarrow> string" where
  "lines_text ls = intercalate [CHR 0x0A] ls"

section \<open>Concrete inputs\<close>

text \<open>A registry state from its three answers: to the login, to the service list and
  to the instance list of each service.\<close>

fun registry_of :: "http_result \<Rightarrow> http_result \<Rightarrow> (pyval \<Rightarrow> http_result) \<Rightarrow> registry" where
  "registry_of login services instances (Request POST url form) = login"
| "registry_of login services instances (Request GET url params) =
     (case map_of params ''serviceName'' of
        None \<Rightarrow> services
      | Some service_name \<Rightarrow> instances service_name)"

definition token_reply :: http_result where
  "token_reply = Reply 200 (Json (PyDict [(''accessToken'', PyStr ''tok'')]))"

definition doms_reply :: "pyval list \<Rightarrow> http_result" where
  "doms_reply names = Reply 200 (Json (PyDict [(''doms'', PyList names)]))"

definition hosts_reply :: "pyval list \<Rightarrow> http_result" where
  "hosts_reply instances = Reply 200 (Json (PyDict [(''hosts'', PyList instances)]))"

text \<open>The text of the one-element document with \<open>svc_a_target\<close>.\<close>

definition svc_a_text :: string where
  \<open>svc_a_text = lines_text
     [''['',
      ''  {'',
      ''    "targets": ['',
      ''      "10.0.0.5:8080"'',
      ''    ],'',
      ''    "labels": {'',
      ''      "instance": "10.0.0.5:8080",'',
      ''      "job": "nacos-discovery",'',
      ''      "service": "svc-a"'',
      ''    }'',
      ''  }'',
      '']'']\<close>

text \<open>A file system with the directory \<^verbatim>\<open>./app\<close> and nothing else.\<close>

definition fresh_fs :: filesystem where
  "fresh_fs = \<lparr> dirs = {''./app''}, files = Map.empty, denied = {} \<rparr>"

text \<open>An instance record as the registry lists it, here of an unhealthy instance.\<close>

definition unhealthy_instance :: pyval where
  "unhealthy_instance =
     PyDict [(''ip'', PyStr ''10.0.0.5''), (''port'', PyInt 8080), (''healthy'', PyBool False)]"

definition svc_a_target :: pyval where
  "svc_a_target =
     PyDict [(''targets'', PyList [PyStr ''10.0.0.5:8080'']),
             (''labels'', PyDict [(''instance'', PyStr ''10.0.0.5:8080''),
                                  (''job'', PyStr ''nacos-discovery''),
                                  (''service'', PyStr ''svc-a'')])]"

text \<open>A registry state with three services, of which the second answers its instance
  lookup with status 503.\<close>

definition three_services_registry :: registry where
  "three_services_registry =
     registry_of token_reply (doms_reply [PyStr ''svc-a'', PyStr ''svc-b'', PyStr ''svc-c''])
       (\<lambda>s. if s = PyStr ''svc-b'' then Reply 503 NotJson else hosts_reply [unhealthy_instance])"

section \<open>Facts about the client\<close>

lemma py_get_error: "py_get j k d = Inl e \<Longrightarrow> e = AttributeError"
  by (cases j) auto

lemma py_len_error: "py_len v = Inl e \<Longrightarrow> e = TypeError"
  by (cases v) auto

lemma authenticate_result:
  "fst (authenticate reg config) =
     (case reg (login_request config) of
        ConnectionFailed \<Rightarrow> Inl RequestException
      | Reply st b \<Rightarrow>
          if 400 \<le> st \<and> st < 600 then Inl (HTTPError st)
          else (case b of
                  NotJson \<Rightarrow> Inl JSONDecodeError
                | Json j \<Rightarrow>
                    (case py_get j ''accessToken'' PyNone of
                       Inl e \<Rightarrow> Inl e
                     | Inr t \<Rightarrow> if truthy t then Inr () else Inl ValueError)))"
  by (auto simp add: authenticate_def authenticate_try_def login_request_def session_post_def
      raise_for_status_def response_json_def Let_def
      split: http_result.splits body.splits sum.splits dest: py_get_error)

lemma authenticate_config:
  "fst (snd (authenticate reg config)) =
     (case reg (login_request config) of
        ConnectionFailed \<Rightarrow> config
      | Reply st b \<Rightarrow>
          if 400 \<le> st \<and> st < 600 then config
          else (case b of
                  NotJson \<Rightarrow> config
                | Json j \<Rightarrow>
                    (case py_get j ''accessToken'' PyNone of
                       Inl e \<Rightarrow> config
                     | Inr t \<Rightarrow> config\<lparr>token := t\<rparr>)))"
  by (auto simp add: authenticate_def authenticate_try_def login_request_def session_post_def
      raise_for_status_def response_json_def Let_def
      split: http_result.splits body.splits sum.splits dest: py_get_error)

lemma get_services_result:
  "fst (get_services reg config) =
     (case reg (services_request config) of
        ConnectionFailed \<Rightarrow> Inr (PyList [])
      | Reply st b \<Rightarrow>
          if 400 \<le> st \<and> st < 600 then Inr (PyList [])
          else (case b of
                  NotJson \<Rightarrow> Inr (PyList [])
                | Json j \<Rightarrow>
                    (case py_get j ''doms'' (PyList []) of
                       Inl e \<Rightarrow> Inl e
                     | Inr v \<Rightarrow> (case py_len v of Inl e \<Rightarrow> Inl e | Inr n \<Rightarrow> Inr v))))"
  by (auto simp add: get_services_def get_services_try_def services_request_def session_get_def
      raise_for_status_def response_json_def
      split: http_result.splits body.splits sum.splits dest: py_get_error py_len_error)

lemma get_service_instances_result:
  "fst (get_service_instances reg config s) =
     (case reg (instances_request config s) of
        ConnectionFailed \<Rightarrow> Inr (PyList [])
      | Reply st b \<Rightarrow>
          if 400 \<le> st \<and> st < 600 then Inr (PyList [])
          else (case b of
                  NotJson \<Rightarrow> Inr (PyList [])
                | Json j \<Rightarrow>
                    (case py_get j ''hosts'' (PyList []) of
                       Inl e \<Rightarrow> Inl e
                     | Inr v \<Rightarrow> (case py_len v of Inl e \<Rightarrow> Inl e | Inr n \<Rightarrow> Inr v))))"
  by (auto simp add: get_service_instances_def get_service_instances_try_def
      instances_request_def session_get_def raise_for_status_def response_json_def
      split: http_result.splits body.splits sum.splits dest: py_get_error py_len_error)

section \<open>Facts about target construction\<close>

lemma address_well_formed:
  "has_field i ''ip'' \<Longrightarrow> has_field i ''port'' \<Longrightarrow>
   address i = Inr (py_str (field i ''ip'') @ '':'' @ py_str (field i ''port''))"
  by (cases i) (auto simp: address_def)

lemma make_target_well_formed:
  "has_field i ''ip'' \<Longrightarrow> has_field i ''port'' \<Longrightarrow> make_target i s = Inr (scrape_target i s)"
  by (simp add: make_target_def address_well_formed scrape_target_def Let_def)

lemma make_target_missing:
  assumes "is_record i" and "\<not> (has_field i ''ip'' \<and> has_field i ''port'')"
  shows "make_target i s = Inl (KeyError (if has_field i ''ip'' then ''port'' else ''ip''))"
  using assms by (cases i) (auto simp: make_target_def address_def split: option.splits)

lemma generate_target_config_loop_ok:
  "(\<And>i. i \<in> set xs \<Longrightarrow> make_target i s = Inr (f i)) \<Longrightarrow>
   generate_target_config_loop xs s acc = Inr (acc @ map f xs)"
  by (induction xs arbitrary: acc) simp_all

lemma generate_target_config_loop_error:
  "(\<And>i. i \<in> set pre \<Longrightarrow> make_target i s = Inr (f i)) \<Longrightarrow> make_target bad s = Inl e \<Longrightarrow>
   generate_target_config_loop (pre @ bad # post) s acc = Inl e"
  by (induction pre arbitrary: acc) simp_all

lemma generate_target_config_well_formed:
  assumes "\<And>i. i \<in> set xs \<Longrightarrow> has_field i ''ip'' \<and> has_field i ''port''"
  shows "generate_target_config (PyList xs) s = Inr (map (\<lambda>i. scrape_target i s) xs)"
  using generate_target_config_loop_ok [of xs s "\<lambda>i. scrape_target i s" "[]"] assms
  by (simp add: generate_target_config_def make_target_well_formed)

section \<open>Facts about the cycle\<close>

lemma main_loop_ok:
  "(\<And>s. s \<in> set names \<Longrightarrow> service_targets reg config s = Inr (g s)) \<Longrightarrow>
   fst (main_loop reg config names acc) = Inr (acc @ concat (map g names))"
proof (induction names arbitrary: acc)
  case Nil
  then show ?case by simp
next
  case (Cons s names)
  from Cons.prems have s: "service_targets reg config s = Inr (g s)"
    by simp
  from Cons.prems have rest: "fst (main_loop reg config names (acc @ g s)) = Inr ((acc @ g s) @ concat (map g names))"
    by (intro Cons.IH) simp
  from s rest show ?case
    by (auto simp: service_targets_def split: prod.splits sum.splits)
qed

lemma main_loop_error:
  "(\<And>s. s \<in> set pre \<Longrightarrow> service_targets reg config s = Inr (g s)) \<Longrightarrow>
   service_targets reg config bad = Inl e \<Longrightarrow>
   fst (main_loop reg config (pre @ bad # post) acc) = Inl e"
proof (induction pre arbitrary: acc)
  case Nil
  then show ?case
    by (auto simp: service_targets_def split: prod.splits sum.splits)
next
  case (Cons s pre)
  from Cons.prems have s: "service_targets reg config s = Inr (g s)"
    by simp
  from Cons.prems have rest: "fst (main_loop reg config (pre @ bad # post) (acc @ g s)) = Inl e"
    by (intro Cons.IH) simp_all
  from s rest show ?case
    by (auto simp: service_targets_def split: prod.splits sum.splits)
qed

lemma main_result:
  "fst (main env reg fs) =
     (case fst (authenticate reg (NacosConfig_init env)) of
        Inl e \<Rightarrow> Inl e
      | Inr u \<Rightarrow>
         (case fst (get_services reg (cycle_config env reg)) of
            Inl e \<Rightarrow> Inl e
          | Inr services \<Rightarrow>
             (case py_iter services of
                Inl e \<Rightarrow> Inl e
              | Inr names \<Rightarrow>
                 (case fst (main_loop reg (cycle_config env reg) names []) of
                    Inl e \<Rightarrow> Inl e
                  | Inr doc \<Rightarrow> fst (save_config doc working_file watched_dir fs)))))"
  by (auto simp: main_def main_try_def cycle_config_def working_file_def watched_dir_def
      split: prod.splits sum.splits)

lemma main_filesystem:
  "fst (snd (main env reg fs)) =
     (case fst (authenticate reg (NacosConfig_init env)) of
        Inl e \<Rightarrow> fs
      | Inr u \<Rightarrow>
         (case fst (get_services reg (cycle_config env reg)) of
            Inl e \<Rightarrow> fs
          | Inr services \<Rightarrow>
             (case py_iter services of
                Inl e \<Rightarrow> fs
              | Inr names \<Rightarrow>
                 (case fst (main_loop reg (cycle_config env reg) names []) of
                    Inl e \<Rightarrow> fs
                  | Inr doc \<Rightarrow> fst (snd (save_config doc working_file watched_dir fs))))))"
  by (auto simp: main_def main_try_def cycle_config_def working_file_def watched_dir_def
      split: prod.splits sum.splits)

lemma open_write_Inr:
  "open_write fs p c = Inr fs' \<Longrightarrow> fs' = fs\<lparr>files := (files fs)(p \<mapsto> c)\<rparr> \<and> \<not> is_dir fs p"
  by (auto simp: open_write_def Let_def split: if_splits)

lemma shutil_copy_Inr:
  "shutil_copy fs src dst = Inr fs' \<Longrightarrow>
   \<exists>c. files fs src = Some c \<and> copy_destination fs src dst \<noteq> src
     \<and> fs' = fs\<lparr>files := (files fs)(copy_destination fs src dst \<mapsto> c)\<rparr>"
  by (auto simp: shutil_copy_def Let_def path_exists_def split: if_splits option.splits dest!: open_write_Inr)

lemma copy_destination_files [simp]:
  "copy_destination (fs\<lparr>files := f\<rparr>) src dst = copy_destination fs src dst"
  by (simp add: copy_destination_def is_dir_def)

lemma save_config_Inr:
  assumes "fst (save_config targets out dir fs) = Inr ()"
  shows "\<exists>fs1 fs2 fs3. makedirs fs dir = (Inr (), fs1)
           \<and> open_write fs1 out (json_dumps (PyList targets)) = Inr fs2
           \<and> shutil_copy fs2 out (path_join dir (path_basename out)) = Inr fs3
           \<and> fst (snd (save_config targets out dir fs)) = fs3"
proof (cases "makedirs fs dir")
  case (Pair r fs1)
  with assms have fs1: "makedirs fs dir = (Inr (), fs1)"
    by (cases r) (simp_all add: save_config_def save_config_try_def split: if_splits)
  show ?thesis
  proof (cases "open_write fs1 out (json_dumps (PyList targets))")
    case (Inl e)
    with assms fs1 show ?thesis
      by (simp add: save_config_def save_config_try_def split: if_splits)
  next
    case fs2: (Inr fs2)
    show ?thesis
    proof (cases "shutil_copy fs2 out (path_join dir (path_basename out))")
      case (Inl e)
      with assms fs1 fs2 show ?thesis
        by (simp add: save_config_def save_config_try_def Let_def split: if_splits)
    next
      case (Inr fs3)
      with fs1 fs2 show ?thesis
        by (simp add: save_config_def save_config_try_def Let_def)
    qed
  qed
qed

lemma save_config_success:
  assumes "fst (save_config targets out dir fs) = Inr ()"
  shows "files (fst (snd (save_config targets out dir fs))) out = Some (json_dumps (PyList targets))
       \<and> files (fst (snd (save_config targets out dir fs)))
           (copy_destination (fst (snd (save_config targets out dir fs))) out
              (path_join dir (path_basename out)))
         = Some (json_dumps (PyList targets))"
proof -
  from save_config_Inr [OF assms] obtain fs1 fs2 fs3 where
    w: "open_write fs1 out (json_dumps (PyList targets)) = Inr fs2" and
    c: "shutil_copy fs2 out (path_join dir (path_basename out)) = Inr fs3" and
    r: "fst (snd (save_config targets out dir fs)) = fs3"
    by blast
  from open_write_Inr [OF w] shutil_copy_Inr [OF c] r show ?thesis
    by auto
qed

section \<open>Facts about the file system\<close>

lemma makedirs_split_watched_dir: "makedirs_split ''./prometheus/conf'' = (''./prometheus'', ''conf'')"
  by (simp add: makedirs_split_def path_split_def after_last_slash_def rstrip_slash_def Let_def)

lemma makedirs_split_prometheus: "makedirs_split ''./prometheus'' = (''.'', ''prometheus'')"
  by (simp add: makedirs_split_def path_split_def after_last_slash_def rstrip_slash_def Let_def)

lemma makedirs_prometheus: "makedirs fs ''./prometheus'' = mkdir_exist_ok fs ''./prometheus''"
  by (subst makedirs.simps) (simp add: makedirs_split_prometheus path_exists_def is_dir_def)

lemma makedirs_watched_dir:
  "makedirs fs ''./prometheus/conf'' =
     (if path_exists fs ''./prometheus'' then mkdir_exist_ok fs ''./prometheus/conf''
      else (case mkdir_exist_ok fs ''./prometheus'' of
              (Inl e, fs') \<Rightarrow>
                if e = FileExistsError then mkdir_exist_ok fs' ''./prometheus/conf''
                else (Inl e, fs')
            | (Inr u, fs') \<Rightarrow> mkdir_exist_ok fs' ''./prometheus/conf''))"
  by (subst makedirs.simps)
     (simp add: makedirs_split_watched_dir makedirs_prometheus Let_def
      split: sum.splits prod.splits)

lemma path_dirname_literals:
  "path_dirname ''./prometheus'' = ''.''"
  "path_dirname ''./prometheus/conf'' = ''./prometheus''"
  "path_dirname ''./app/services.json'' = ''./app''"
  "path_dirname ''./prometheus/conf/services.json'' = ''./prometheus/conf''"
  by (simp_all add: path_dirname_def path_split_def after_last_slash_def rstrip_slash_def Let_def)

lemma watched_copy_path: "path_join watched_dir (path_basename working_file) = watched_copy"
  by (simp add: path_join_def path_basename_def after_last_slash_def watched_dir_def
      working_file_def watched_copy_def)

lemma makedirs_ready:
  assumes "fs_ready fs"
  shows "makedirs fs watched_dir
           = (Inr (), fs\<lparr>dirs := dirs fs \<union> {''./prometheus'', watched_dir}\<rparr>)"
  using assms
  by (auto simp: fs_ready_def watched_dir_def makedirs_watched_dir mkdir_exist_ok_def mkdir_def
      path_dirname_literals path_exists_def is_dir_def Let_def insert_absorb insert_commute)


lemma save_config_ready:
  assumes "fs_ready fs"
  shows "save_config targets working_file watched_dir fs =
           (Inr (),
            fs\<lparr>dirs := dirs fs \<union> {''./prometheus'', watched_dir},
               files := (files fs)(working_file \<mapsto> json_dumps (PyList targets),
                                   watched_copy \<mapsto> json_dumps (PyList targets))\<rparr>,
            [LogInfo (''Configuration written to '' @ working_file),
             LogInfo (''Configuration copied to '' @ watched_copy)])"
proof -
  let ?text = "json_dumps (PyList targets)"
  let ?fs1 = "fs\<lparr>dirs := dirs fs \<union> {''./prometheus'', watched_dir}\<rparr>"
  let ?fs2 = "?fs1\<lparr>files := (files ?fs1)(working_file \<mapsto> ?text)\<rparr>"
  let ?fs3 = "?fs2\<lparr>files := (files ?fs2)(watched_copy \<mapsto> ?text)\<rparr>"
  have m: "makedirs fs watched_dir = (Inr (), ?fs1)"
    using assms by (rule makedirs_ready)
  have w: "open_write ?fs1 working_file ?text = Inr ?fs2"
    using assms
    by (simp add: fs_ready_def open_write_def working_file_def watched_dir_def watched_copy_def
        path_dirname_literals path_exists_def is_dir_def Let_def)
  have c: "shutil_copy ?fs2 working_file watched_copy = Inr ?fs3"
    using assms
    by (simp add: fs_ready_def shutil_copy_def copy_destination_def open_write_def
        working_file_def watched_dir_def watched_copy_def
        path_dirname_literals path_exists_def is_dir_def Let_def)
  from m w c show ?thesis
    by (simp add: save_config_def save_config_try_def watched_copy_path Let_def)
qed

lemma open_write_Inr_iff:
  "open_write fs p c = Inr fs' \<longleftrightarrow>
     p \<noteq> [] \<and> (path_dirname p = [] \<or> is_dir fs (path_dirname p)) \<and> \<not> is_dir fs p
     \<and> p \<notin> denied fs \<and> fs' = fs\<lparr>files := (files fs)(p \<mapsto> c)\<rparr>"
  by (auto simp: open_write_def Let_def path_exists_def)

lemma shutil_copy_Inr_iff:
  "shutil_copy fs src dst = Inr fs' \<longleftrightarrow>
     copy_destination fs src dst \<noteq> src \<and> \<not> is_dir fs src
     \<and> (\<exists>c. files fs src = Some c \<and> open_write fs (copy_destination fs src dst) c = Inr fs')"
  by (auto simp: shutil_copy_def Let_def path_exists_def split: option.splits)

lemma mkdir_exist_ok_present: "is_dir fs name \<Longrightarrow> mkdir_exist_ok fs name = (Inr (), fs)"
  by (auto simp: mkdir_exist_ok_def mkdir_def Let_def path_exists_def split: sum.splits if_splits)

lemma mkdir_exist_ok_Inr:
  "mkdir_exist_ok fs name = (Inr u, fs') \<Longrightarrow>
   is_dir fs' name \<and> (fs' = fs \<or> fs' = fs\<lparr>dirs := insert name (dirs fs)\<rparr>)"
  by (auto simp: mkdir_exist_ok_def mkdir_def Let_def is_dir_def split: if_splits)

lemma mkdir_exist_ok_error:
  "mkdir_exist_ok fs name = (Inl FileExistsError, fs') \<Longrightarrow> path_exists fs name"
  by (auto simp: mkdir_exist_ok_def mkdir_def Let_def split: if_splits)

lemma makedirs_watched_dir_Inr:
  assumes "makedirs fs ''./prometheus/conf'' = (Inr u, fs1)"
  shows "is_dir fs1 ''./prometheus/conf'' \<and> path_exists fs1 ''./prometheus''
       \<and> files fs1 = files fs \<and> denied fs1 = denied fs
       \<and> dirs fs \<subseteq> dirs fs1 \<and> dirs fs1 \<subseteq> dirs fs \<union> {''./prometheus'', ''./prometheus/conf''}"
proof (cases "path_exists fs ''./prometheus''")
  case True
  with assms have "mkdir_exist_ok fs ''./prometheus/conf'' = (Inr u, fs1)"
    by (simp add: makedirs_watched_dir)
  from mkdir_exist_ok_Inr [OF this] True show ?thesis
    by (auto simp: path_exists_def is_dir_def)
next
  case False
  obtain r fs0 where parent: "mkdir_exist_ok fs ''./prometheus'' = (r, fs0)"
    by (cases "mkdir_exist_ok fs ''./prometheus''")
  show ?thesis
  proof (cases r)
    case (Inl e)
    with False assms parent mkdir_exist_ok_error [of fs "''./prometheus''" fs0] show ?thesis
      by (auto simp: makedirs_watched_dir split: if_splits)
  next
    case (Inr u0)
    with False assms parent have "mkdir_exist_ok fs0 ''./prometheus/conf'' = (Inr u, fs1)"
      by (simp add: makedirs_watched_dir)
    from mkdir_exist_ok_Inr [OF this] mkdir_exist_ok_Inr [of fs "''./prometheus''" u0 fs0]
      parent Inr
    show ?thesis
      by (auto simp: path_exists_def is_dir_def)
  qed
qed

lemma makedirs_watched_dir_present:
  "is_dir fs ''./prometheus/conf'' \<Longrightarrow> path_exists fs ''./prometheus'' \<Longrightarrow>
   makedirs fs ''./prometheus/conf'' = (Inr (), fs)"
  by (simp add: makedirs_watched_dir mkdir_exist_ok_present)

lemma save_config_again:
  assumes "fst (save_config targets working_file watched_dir fs) = Inr ()"
  shows "fst (save_config targets working_file watched_dir
                (fst (snd (save_config targets working_file watched_dir fs)))) = Inr ()
       \<and> fst (snd (save_config targets working_file watched_dir
                (fst (snd (save_config targets working_file watched_dir fs)))))
         = fst (snd (save_config targets working_file watched_dir fs))"
proof -
  let ?text = "json_dumps (PyList targets)"
  from save_config_Inr [OF assms] obtain fs1 fs2 fs3 where
    m: "makedirs fs watched_dir = (Inr (), fs1)" and
    w: "open_write fs1 working_file ?text = Inr fs2" and
    c: "shutil_copy fs2 working_file (path_join watched_dir (path_basename working_file)) = Inr fs3" and
    r: "fst (snd (save_config targets working_file watched_dir fs)) = fs3"
    by blast
  let ?dst = "copy_destination fs2 working_file watched_copy"
  from m have m1: "is_dir fs1 watched_dir \<and> path_exists fs1 ''./prometheus''"
    using makedirs_watched_dir_Inr [of fs "()" fs1] by (simp add: watched_dir_def)
  from w have fs2: "fs2 = fs1\<lparr>files := (files fs1)(working_file \<mapsto> ?text)\<rparr>"
    and w1: "path_dirname working_file = [] \<or> is_dir fs1 (path_dirname working_file)"
      "\<not> is_dir fs1 working_file" "working_file \<notin> denied fs1"
    by (simp_all add: open_write_Inr_iff)
  from c have c0: "?dst \<noteq> working_file"
    and c1: "open_write fs2 ?dst ?text = Inr fs3"
    by (auto simp: shutil_copy_Inr_iff watched_copy_path fs2)
  from c1 have fs3: "fs3 = fs2\<lparr>files := (files fs2)(?dst \<mapsto> ?text)\<rparr>"
    and c2: "?dst \<noteq> []" "path_dirname ?dst = [] \<or> is_dir fs2 (path_dirname ?dst)"
      "\<not> is_dir fs2 ?dst" "?dst \<notin> denied fs2"
    by (simp_all add: open_write_Inr_iff)
  have dst3: "copy_destination fs3 working_file watched_copy = ?dst"
    by (simp add: fs3 copy_destination_def is_dir_def)
  have m3: "makedirs fs3 watched_dir = (Inr (), fs3)"
    using m1 by (simp add: watched_dir_def fs3 fs2 makedirs_watched_dir_present
        is_dir_def path_exists_def)
  have same_w: "fs3\<lparr>files := (files fs3)(working_file \<mapsto> ?text)\<rparr> = fs3"
    using c0 by (simp add: fs3 fs2 fun_upd_twist)
  have w3: "open_write fs3 working_file ?text = Inr fs3"
    using w1 same_w by (simp add: open_write_Inr_iff) (simp add: fs3 fs2 is_dir_def working_file_def)
  have same_c: "fs3\<lparr>files := (files fs3)(?dst \<mapsto> ?text)\<rparr> = fs3"
    by (simp add: fs3)
  have "open_write fs3 ?dst ?text = Inr fs3"
    using c2 same_c by (simp add: open_write_Inr_iff) (simp add: fs3 fs2 is_dir_def)
  moreover have "files fs3 working_file = Some ?text"
    using c0 by (simp add: fs3 fs2)
  moreover have "\<not> is_dir fs3 working_file"
    using w1 by (simp add: fs3 fs2 is_dir_def)
  ultimately have c3: "shutil_copy fs3 working_file watched_copy = Inr fs3"
    using c0 by (simp add: shutil_copy_Inr_iff dst3)
  from m3 w3 c3 r show ?thesis
    by (simp add: save_config_def save_config_try_def watched_copy_path Let_def)
qed

lemma show_int_8080: "show_int 8080 = ''8080''"
  by (simp add: show_int_def show_nat.simps digit_char_def)

lemma svc_a_text: "json_dumps (PyList [svc_a_target]) = svc_a_text"
  by (simp add: json_dumps_def svc_a_target_def svc_a_text_def lines_text_def json_string_def
      json_char_def newline_indent_def numeral_2_eq_2 numeral_3_eq_3 eval_nat_numeral)

lemma empty_text: "json_dumps (PyList []) = ''[]''"
  by (simp add: json_dumps_def)

lemma main_publishes:
  "fst (main env reg fs) =
     (case cycle_document env reg of
        Inl e \<Rightarrow> Inl e
      | Inr doc \<Rightarrow> fst (save_config doc working_file watched_dir fs))"
  by (simp add: main_result cycle_document_def split: sum.splits)

lemma main_publishes_filesystem:
  "fst (snd (main env reg fs)) =
     (case cycle_document env reg of
        Inl e \<Rightarrow> fs
      | Inr doc \<Rightarrow> fst (snd (save_config doc working_file watched_dir fs)))"
  by (simp add: main_filesystem cycle_document_def split: sum.splits)

lemma main_ready:
  assumes "cycle_document env reg = Inr doc" and "fs_ready fs"
  shows "fst (main env reg fs) = Inr ()
       \<and> files (fst (snd (main env reg fs))) working_file = Some (json_dumps (PyList doc))
       \<and> files (fst (snd (main env reg fs))) watched_copy = Some (json_dumps (PyList doc))
       \<and> dirs (fst (snd (main env reg fs))) = dirs fs \<union> {''./prometheus'', watched_dir}"
  using assms
  by (simp add: main_publishes main_publishes_filesystem save_config_ready)

lemma cycle_document_of_names:
  assumes "fst (authenticate reg (NacosConfig_init env)) = Inr ()"
    and "fst (get_services reg (cycle_config env reg)) = Inr (PyList names)"
  shows "cycle_document env reg = fst (main_loop reg (cycle_config env reg) names [])"
  using assms by (simp add: cycle_document_def)

lemma registry_of_token_reply:
  "fst (authenticate (registry_of token_reply services instances) (NacosConfig_init env)) = Inr ()"
  "cycle_config env (registry_of token_reply services instances)
     = (NacosConfig_init env)\<lparr>token := PyStr ''tok''\<rparr>"
  by (simp_all add: authenticate_result authenticate_config cycle_config_def token_reply_def
      login_request_def)

lemma service_targets_well_formed:
  assumes "fst (get_service_instances reg config s) = Inr (PyList xs)"
    and "\<And>i. i \<in> set xs \<Longrightarrow> has_field i ''ip'' \<and> has_field i ''port''"
  shows "service_targets reg config s = Inr (map (\<lambda>i. scrape_target i s) xs)"
  using assms by (simp add: service_targets_def generate_target_config_well_formed)

lemma failing_lookup_is_empty:
  "transport_or_http_error (reg (instances_request config s)) \<Longrightarrow>
   fst (get_service_instances reg config s) = Inr (PyList [])"
  by (cases "reg (instances_request config s)") (simp_all add: get_service_instances_result)

lemma scrape_target_service: "scrape_target i s = scrape_target i' s' \<Longrightarrow> s = s'"
  by (simp add: scrape_target_def Let_def)

lemma generate_target_config_missing:
  assumes records: "\<forall>i\<in>set instances. is_record i"
    and missing: "\<exists>i\<in>set instances. \<not> (has_field i ''ip'' \<and> has_field i ''port'')"
  shows "generate_target_config (PyList instances) service_name
           \<in> {Inl (KeyError ''ip''), Inl (KeyError ''port'')}"
proof -
  from missing obtain pre bad post where
    split: "instances = pre @ bad # post" and
    bad: "\<not> (has_field bad ''ip'' \<and> has_field bad ''port'')" and
    pre: "\<forall>i\<in>set pre. has_field i ''ip'' \<and> has_field i ''port''"
    using split_list_first_prop [of instances "\<lambda>i. \<not> (has_field i ''ip'' \<and> has_field i ''port'')"]
    by auto
  from records split have "is_record bad"
    by simp
  from make_target_missing [OF this bad, of service_name]
  have "make_target bad service_name
          = Inl (KeyError (if has_field bad ''ip'' then ''port'' else ''ip''))" .
  with pre
  have "generate_target_config_loop (pre @ bad # post) service_name []
          = Inl (KeyError (if has_field bad ''ip'' then ''port'' else ''ip''))"
    by (intro generate_target_config_loop_error [where f = "\<lambda>i. scrape_target i service_name"])
       (simp_all add: make_target_well_formed)
  with split show ?thesis
    by (simp add: generate_target_config_def)
qed

lemma main_success_document:
  assumes "fst (main env reg fs) = Inr ()"
  shows "\<exists>doc. cycle_document env reg = Inr doc
           \<and> fst (save_config doc working_file watched_dir fs) = Inr ()
           \<and> fst (snd (main env reg fs)) = fst (snd (save_config doc working_file watched_dir fs))"
  using assms
  by (cases "cycle_document env reg") (simp_all add: main_publishes main_publishes_filesystem)

lemma show_nat_0: "show_nat 0 = ''0''"
  by (simp add: show_nat.simps digit_char_def)

lemma get_services_Reply:
  "reg (services_request config) = Reply st (Json (PyDict kvs)) \<Longrightarrow> \<not> (400 \<le> st \<and> st < 600) \<Longrightarrow>
   get_services_try reg config =
     (case py_len (case map_of kvs ''doms'' of None \<Rightarrow> PyList [] | Some v \<Rightarrow> v) of
        Inl e \<Rightarrow> Inl e
      | Inr n \<Rightarrow> Inr (case map_of kvs ''doms'' of None \<Rightarrow> PyList [] | Some v \<Rightarrow> v,
                      LogInfo (''Retrieved '' @ show_nat n @ '' services'')))"
  by (auto simp add: get_services_try_def services_request_def session_get_def
      raise_for_status_def response_json_def)

lemma get_service_instances_Reply:
  "reg (instances_request config s) = Reply st (Json (PyDict kvs)) \<Longrightarrow>
   \<not> (400 \<le> st \<and> st < 600) \<Longrightarrow>
   get_service_instances_try reg config s =
     (case py_len (case map_of kvs ''hosts'' of None \<Rightarrow> PyList [] | Some v \<Rightarrow> v) of
        Inl e \<Rightarrow> Inl e
      | Inr n \<Rightarrow> Inr (case map_of kvs ''hosts'' of None \<Rightarrow> PyList [] | Some v \<Rightarrow> v,
                      LogInfo (''Retrieved '' @ show_nat n @ '' instances for service ''
                               @ py_str s)))"
  by (auto simp add: get_service_instances_try_def instances_request_def session_get_def
      raise_for_status_def response_json_def)

lemma failing_enumeration_is_empty:
  "transport_or_http_error (reg (services_request config)) \<Longrightarrow>
   fst (get_services reg config) = Inr (PyList [])"
  by (cases "reg (services_request config)") (simp_all add: get_services_result)

section \<open>The claims\<close>

text \<open>
  C2.  For every service name and every instance list in which each record has the
  fields \<open>ip\<close> and \<open>port\<close>, \<open>generate_target_config\<close> returns a list as long as
  the instance list: the target at each position is the one built from the instance
  at that position, so nothing is filtered (an unhealthy instance has its target like
  any other) and nothing is deduplicated (equal instances give equal targets, one
  each).
\<close>

theorem generate_target_config_one_per_instance:
  assumes "\<forall>i\<in>set instances. has_field i ''ip'' \<and> has_field i ''port''"
  shows "\<exists>targets. generate_target_config (PyList instances) service_name = Inr targets
           \<and> length targets = length instances
           \<and> targets = map (\<lambda>i. scrape_target i service_name) instances
           \<and> (\<forall>k<length instances.
                 make_target (instances ! k) service_name = Inr (targets ! k))"
  using assms by (simp add: generate_target_config_well_formed make_target_well_formed)

theorem generate_target_config_one_per_instance_witness:
  "has_field unhealthy_instance ''ip'' \<and> has_field unhealthy_instance ''port''
   \<and> generate_target_config (PyList [unhealthy_instance, unhealthy_instance]) (PyStr ''svc-a'')
       = Inr [svc_a_target, svc_a_target]"
proof -
  have fields: "has_field unhealthy_instance ''ip'' \<and> has_field unhealthy_instance ''port''"
    by (simp add: unhealthy_instance_def)
  have target: "scrape_target unhealthy_instance (PyStr ''svc-a'') = svc_a_target"
    by (simp add: scrape_target_def Let_def unhealthy_instance_def svc_a_target_def
        show_int_8080)
  from fields
  have "\<forall>i\<in>set [unhealthy_instance, unhealthy_instance].
          has_field i ''ip'' \<and> has_field i ''port''"
    by simp
  from generate_target_config_one_per_instance [OF this, of "PyStr ''svc-a''"] fields target
  show ?thesis
    by auto
qed

text \<open>
  C4.  When \<open>authenticate\<close> raises, whatever the exception, the cycle raises the
  same exception and its file system is the one it started from: the working file is
  neither created nor modified, nothing is copied, and the watched directory is not
  created.
\<close>

theorem failed_authentication_leaves_filesystem:
  assumes "fst (authenticate reg (NacosConfig_init env)) = Inl e"
  shows "fst (main env reg fs) = Inl e \<and> fst (snd (main env reg fs)) = fs"
  using assms by (simp add: main_result main_filesystem)

theorem failed_authentication_leaves_filesystem_witness:
  "fst (main Map.empty (registry_of ConnectionFailed (doms_reply []) (\<lambda>s. hosts_reply [])) fresh_fs)
     = Inl RequestException
   \<and> fst (snd (main Map.empty (registry_of ConnectionFailed (doms_reply []) (\<lambda>s. hosts_reply []))
        fresh_fs)) = fresh_fs
   \<and> fst (main Map.empty (registry_of (Reply 403 NotJson) (doms_reply []) (\<lambda>s. hosts_reply []))
        fresh_fs) = Inl (HTTPError 403)
   \<and> fst (snd (main Map.empty (registry_of (Reply 403 NotJson) (doms_reply []) (\<lambda>s. hosts_reply []))
        fresh_fs)) = fresh_fs
   \<and> fst (main Map.empty (registry_of (Reply 200 (Json (PyDict []))) (doms_reply [])
        (\<lambda>s. hosts_reply [])) fresh_fs) = Inl ValueError
   \<and> fst (snd (main Map.empty (registry_of (Reply 200 (Json (PyDict []))) (doms_reply [])
        (\<lambda>s. hosts_reply [])) fresh_fs)) = fresh_fs"
proof -
  let ?rest = "\<lambda>login. registry_of login (doms_reply []) (\<lambda>s. hosts_reply [])"
  have a: "fst (authenticate (?rest ConnectionFailed) (NacosConfig_init Map.empty))
             = Inl RequestException"
    by (simp add: authenticate_result login_request_def)
  have b: "fst (authenticate (?rest (Reply 403 NotJson)) (NacosConfig_init Map.empty))
             = Inl (HTTPError 403)"
    by (simp add: authenticate_result login_request_def)
  have c: "fst (authenticate (?rest (Reply 200 (Json (PyDict [])))) (NacosConfig_init Map.empty))
             = Inl ValueError"
    by (simp add: authenticate_result login_request_def)
  from failed_authentication_leaves_filesystem [OF a, of fresh_fs]
    failed_authentication_leaves_filesystem [OF b, of fresh_fs]
    failed_authentication_leaves_filesystem [OF c, of fresh_fs]
  show ?thesis
    by simp
qed

text \<open>
  C6.  The claim that a failed \<open>authenticate\<close> leaves the token as it was fails
  when the response is a JSON object without an access token: \<open>authenticate\<close>
  stores \<^verbatim>\<open>None\<close> in the token before it raises.
\<close>

theorem failed_authentication_token_counterexample:
  "fst (authenticate (registry_of (Reply 200 (Json (PyDict []))) (doms_reply []) (\<lambda>s. hosts_reply []))
         (NacosConfig_init Map.empty)) = Inl ValueError
   \<and> token (NacosConfig_init Map.empty) = PyStr []
   \<and> token (fst (snd (authenticate
         (registry_of (Reply 200 (Json (PyDict []))) (doms_reply []) (\<lambda>s. hosts_reply []))
         (NacosConfig_init Map.empty)))) = PyNone
   \<and> token (fst (snd (authenticate
         (registry_of (Reply 200 (Json (PyDict []))) (doms_reply []) (\<lambda>s. hosts_reply []))
         (NacosConfig_init Map.empty)))) \<noteq> token (NacosConfig_init Map.empty)"
  by (simp add: authenticate_result authenticate_config login_request_def NacosConfig_init_def)

text \<open>
  C6, as amended.  After a failing \<open>authenticate\<close> the configuration is unchanged
  unless the exception is the \<^verbatim>\<open>ValueError\<close> of the token check; then the
  response was a JSON object and the token has been overwritten with its
  \<open>accessToken\<close> value, \<^verbatim>\<open>None\<close> when the field is missing.  In every
  failing case a token that was empty (falsy) before the call is falsy after it.
\<close>

theorem failed_authentication_token:
  assumes "fst (authenticate reg config) = Inl e"
  shows "(e \<noteq> ValueError \<longrightarrow> fst (snd (authenticate reg config)) = config)
       \<and> (e = ValueError \<longrightarrow>
            (\<exists>st kvs. reg (login_request config) = Reply st (Json (PyDict kvs))
               \<and> fst (snd (authenticate reg config))
                   = config\<lparr>token := (case map_of kvs ''accessToken'' of
                                         None \<Rightarrow> PyNone | Some v \<Rightarrow> v)\<rparr>))
       \<and> (\<not> truthy (token config) \<longrightarrow> \<not> truthy (token (fst (snd (authenticate reg config)))))"
proof (cases "reg (login_request config)")
  case ConnectionFailed
  with assms show ?thesis
    by (auto simp: authenticate_result authenticate_config)
next
  case (Reply st b)
  show ?thesis
  proof (cases b)
    case NotJson
    with Reply assms show ?thesis
      by (auto simp: authenticate_result authenticate_config split: if_splits)
  next
    case (Json j)
    with Reply assms show ?thesis
      by (cases j)
         (auto simp: authenticate_result authenticate_config split: if_splits option.splits)
  qed
qed

theorem failed_authentication_token_witness:
  "fst (snd (authenticate (registry_of ConnectionFailed (doms_reply []) (\<lambda>s. hosts_reply []))
          (NacosConfig_init Map.empty))) = NacosConfig_init Map.empty
   \<and> fst (snd (authenticate
          (registry_of (Reply 200 (Json (PyDict []))) (doms_reply []) (\<lambda>s. hosts_reply []))
          (NacosConfig_init Map.empty))) = (NacosConfig_init Map.empty)\<lparr>token := PyNone\<rparr>
   \<and> \<not> truthy (token (fst (snd (authenticate
          (registry_of (Reply 200 (Json (PyDict []))) (doms_reply []) (\<lambda>s. hosts_reply []))
          (NacosConfig_init Map.empty)))))"
proof -
  let ?rest = "\<lambda>login. registry_of login (doms_reply []) (\<lambda>s. hosts_reply [])"
  have a: "fst (authenticate (?rest ConnectionFailed) (NacosConfig_init Map.empty))
             = Inl RequestException"
    by (simp add: authenticate_result login_request_def)
  have c: "fst (authenticate (?rest (Reply 200 (Json (PyDict [])))) (NacosConfig_init Map.empty))
             = Inl ValueError"
    by (simp add: authenticate_result login_request_def)
  have empty: "\<not> truthy (token (NacosConfig_init Map.empty))"
    by (simp add: NacosConfig_init_def)
  from failed_authentication_token [OF a] failed_authentication_token [OF c] empty
  show ?thesis
    by (auto simp: login_request_def)
qed

text \<open>
  C10.  The claim that \<open>authenticate\<close> succeeds only with a 2xx status fails at a
  response with status 300 and a JSON body that carries a token:
  \<^verbatim>\<open>raise_for_status\<close> raises for 400 to 599 only, so \<open>authenticate\<close>
  succeeds.
\<close>

theorem authenticate_succeeds_counterexample:
  "fst (authenticate
         (registry_of (Reply 300 (Json (PyDict [(''accessToken'', PyStr ''tok'')])))
            (doms_reply []) (\<lambda>s. hosts_reply []))
         (NacosConfig_init Map.empty)) = Inr ()
   \<and> registry_of (Reply 300 (Json (PyDict [(''accessToken'', PyStr ''tok'')])))
         (doms_reply []) (\<lambda>s. hosts_reply []) (login_request (NacosConfig_init Map.empty))
       = Reply 300 (Json (PyDict [(''accessToken'', PyStr ''tok'')]))
   \<and> \<not> (200 \<le> (300::int) \<and> (300::int) < 300)"
  by (simp add: authenticate_result login_request_def)

text \<open>
  C10, as amended.  \<open>authenticate\<close> succeeds if and only if the login call returns
  a response whose status is not an error status (not in 400 to 599; every 2xx status
  qualifies), whose body decodes to a JSON object, and whose \<open>accessToken\<close> is
  present and truthy.  With such a status and body, an \<open>accessToken\<close> that is
  present but falsy (the empty string, for one) makes \<open>authenticate\<close> raise
  \<^verbatim>\<open>ValueError\<close>, as a missing one does.
\<close>

theorem authenticate_succeeds_iff:
  "(fst (authenticate reg config) = Inr ()
      \<longleftrightarrow> (\<exists>st kvs t. reg (login_request config) = Reply st (Json (PyDict kvs))
             \<and> \<not> (400 \<le> st \<and> st < 600)
             \<and> map_of kvs ''accessToken'' = Some t \<and> truthy t))
   \<and> (\<forall>st kvs t. reg (login_request config) = Reply st (Json (PyDict kvs))
         \<and> \<not> (400 \<le> st \<and> st < 600) \<and> map_of kvs ''accessToken'' = Some t \<and> \<not> truthy t
         \<longrightarrow> fst (authenticate reg config) = Inl ValueError)
   \<and> (\<forall>st kvs. reg (login_request config) = Reply st (Json (PyDict kvs))
         \<and> \<not> (400 \<le> st \<and> st < 600) \<and> map_of kvs ''accessToken'' = None
         \<longrightarrow> fst (authenticate reg config) = Inl ValueError)"
proof (cases "reg (login_request config)")
  case ConnectionFailed
  then show ?thesis
    by (simp add: authenticate_result)
next
  case (Reply st b)
  show ?thesis
  proof (cases b)
    case NotJson
    with Reply show ?thesis
      by (simp add: authenticate_result)
  next
    case (Json j)
    with Reply show ?thesis
      by (cases j) (auto simp: authenticate_result split: option.splits)
  qed
qed

theorem authenticate_succeeds_iff_witness:
  "fst (authenticate (registry_of token_reply (doms_reply []) (\<lambda>s. hosts_reply []))
         (NacosConfig_init Map.empty)) = Inr ()
   \<and> fst (authenticate
         (registry_of (Reply 200 (Json (PyDict [(''accessToken'', PyStr [])]))) (doms_reply [])
            (\<lambda>s. hosts_reply []))
         (NacosConfig_init Map.empty)) = Inl ValueError
   \<and> fst (authenticate
         (registry_of (Reply 200 (Json (PyDict []))) (doms_reply []) (\<lambda>s. hosts_reply []))
         (NacosConfig_init Map.empty)) = Inl ValueError"
proof -
  let ?rest = "\<lambda>login. registry_of login (doms_reply []) (\<lambda>s. hosts_reply [])"
  let ?c = "NacosConfig_init Map.empty"
  have a: "?rest token_reply (login_request ?c)
             = Reply 200 (Json (PyDict [(''accessToken'', PyStr ''tok'')]))"
    by (simp add: login_request_def token_reply_def)
  have b: "?rest (Reply 200 (Json (PyDict [(''accessToken'', PyStr [])]))) (login_request ?c)
             = Reply 200 (Json (PyDict [(''accessToken'', PyStr [])]))"
    by (simp add: login_request_def)
  have c: "?rest (Reply 200 (Json (PyDict []))) (login_request ?c) = Reply 200 (Json (PyDict []))"
    by (simp add: login_request_def)
  from authenticate_succeeds_iff [of "?rest token_reply" ?c] a
  have 1: "fst (authenticate (?rest token_reply) ?c) = Inr ()"
    by simp
  from authenticate_succeeds_iff
         [of "?rest (Reply 200 (Json (PyDict [(''accessToken'', PyStr [])])))" ?c] b
  have 2: "fst (authenticate (?rest (Reply 200 (Json (PyDict [(''accessToken'', PyStr [])])))) ?c)
             = Inl ValueError"
    by simp
  from authenticate_succeeds_iff [of "?rest (Reply 200 (Json (PyDict [])))" ?c] c
  have 3: "fst (authenticate (?rest (Reply 200 (Json (PyDict [])))) ?c) = Inl ValueError"
    by simp
  from 1 2 3 show ?thesis
    by simp
qed

text \<open>
  C7.  When authentication succeeds and the service enumeration returns an empty
  sequence, the cycle does not abort: its document is the empty list, and its outcome
  and file system are those of \<open>save_config\<close> on the empty list, whose text is
  \<^verbatim>\<open>[]\<close>.  On a file system that puts no obstacle in the way of
  \<open>save_config\<close> the cycle succeeds, and the working file and the copy in the
  watched directory both hold \<^verbatim>\<open>[]\<close>.
\<close>

theorem empty_enumeration_publishes_empty_array:
  assumes "fst (authenticate reg (NacosConfig_init env)) = Inr ()"
    and "fst (get_services reg (cycle_config env reg)) = Inr (PyList [])"
  shows "cycle_document env reg = Inr []
       \<and> fst (main env reg fs) = fst (save_config [] working_file watched_dir fs)
       \<and> fst (snd (main env reg fs)) = fst (snd (save_config [] working_file watched_dir fs))
       \<and> json_dumps (PyList []) = ''[]''
       \<and> (fs_ready fs \<longrightarrow>
            fst (main env reg fs) = Inr ()
            \<and> files (fst (snd (main env reg fs))) working_file = Some ''[]''
            \<and> files (fst (snd (main env reg fs))) watched_copy = Some ''[]'')"
proof -
  from assms have doc: "cycle_document env reg = Inr []"
    by (simp add: cycle_document_of_names)
  from doc main_ready [OF doc, of fs] show ?thesis
    by (simp add: main_publishes main_publishes_filesystem empty_text)
qed

theorem empty_enumeration_publishes_empty_array_witness:
  "fs_ready fresh_fs
   \<and> fst (main Map.empty (registry_of token_reply (doms_reply []) (\<lambda>s. hosts_reply [])) fresh_fs)
       = Inr ()
   \<and> files (fst (snd (main Map.empty
         (registry_of token_reply (doms_reply []) (\<lambda>s. hosts_reply [])) fresh_fs))) working_file
       = Some ''[]''
   \<and> files (fst (snd (main Map.empty
         (registry_of token_reply (doms_reply []) (\<lambda>s. hosts_reply [])) fresh_fs))) watched_copy
       = Some ''[]''"
proof -
  let ?reg = "registry_of token_reply (doms_reply []) (\<lambda>s. hosts_reply [])"
  have auth: "fst (authenticate ?reg (NacosConfig_init Map.empty)) = Inr ()"
    by (rule registry_of_token_reply)
  have services: "fst (get_services ?reg (cycle_config Map.empty ?reg)) = Inr (PyList [])"
    by (simp add: get_services_result services_request_def doms_reply_def)
  have ready: "fs_ready fresh_fs"
    by (simp add: fs_ready_def fresh_fs_def working_file_def watched_dir_def watched_copy_def)
  from empty_enumeration_publishes_empty_array [OF auth services, of fresh_fs] ready
  show ?thesis
    by blast
qed

text \<open>
  C1.  For a registry state whose service enumeration returns exactly
  \<^verbatim>\<open>["svc-a"]\<close> and whose instance lookup for \<^verbatim>\<open>svc-a\<close> returns
  exactly one instance, with ip \<^verbatim>\<open>"10.0.0.5"\<close> and port 8080, the document of
  the cycle is the one-element array with the target of \<open>svc_a_target\<close>: targets
  \<^verbatim>\<open>["10.0.0.5:8080"]\<close> and labels instance, job and service, in this order.
  The cycle hands it to \<open>save_config\<close>, which writes it with an indentation of two
  spaces (\<open>svc_a_text\<close>) to the working file and to the copy.
\<close>

theorem cycle_single_instance_document:
  assumes auth: "fst (authenticate reg (NacosConfig_init env)) = Inr ()"
    and services: "fst (get_services reg (cycle_config env reg)) = Inr (PyList [PyStr ''svc-a''])"
    and instances: "fst (get_service_instances reg (cycle_config env reg) (PyStr ''svc-a''))
                      = Inr (PyList [PyDict kvs])"
    and ip: "map_of kvs ''ip'' = Some (PyStr ''10.0.0.5'')"
    and port: "map_of kvs ''port'' = Some (PyInt 8080)"
  shows "cycle_document env reg = Inr [svc_a_target]
       \<and> fst (main env reg fs) = fst (save_config [svc_a_target] working_file watched_dir fs)
       \<and> fst (snd (main env reg fs))
           = fst (snd (save_config [svc_a_target] working_file watched_dir fs))
       \<and> json_dumps (PyList [svc_a_target]) = svc_a_text
       \<and> (fs_ready fs \<longrightarrow>
            fst (main env reg fs) = Inr ()
            \<and> files (fst (snd (main env reg fs))) working_file = Some svc_a_text
            \<and> files (fst (snd (main env reg fs))) watched_copy = Some svc_a_text)"
proof -
  have target: "scrape_target (PyDict kvs) (PyStr ''svc-a'') = svc_a_target"
    using ip port by (simp add: scrape_target_def svc_a_target_def Let_def show_int_8080)
  have "service_targets reg (cycle_config env reg) (PyStr ''svc-a'')
          = Inr (map (\<lambda>i. scrape_target i (PyStr ''svc-a'')) [PyDict kvs])"
    using instances ip port by (intro service_targets_well_formed) simp_all
  then have "service_targets reg (cycle_config env reg) (PyStr ''svc-a'') = Inr [svc_a_target]"
    by (simp add: target)
  then have "fst (main_loop reg (cycle_config env reg) [PyStr ''svc-a''] []) = Inr [svc_a_target]"
    using main_loop_ok [of "[PyStr ''svc-a'']" reg "cycle_config env reg" "\<lambda>s. [svc_a_target]" "[]"]
    by simp
  with auth services have doc: "cycle_document env reg = Inr [svc_a_target]"
    by (simp add: cycle_document_of_names)
  from doc main_ready [OF doc, of fs] show ?thesis
    by (simp add: main_publishes main_publishes_filesystem svc_a_text)
qed

theorem cycle_single_instance_document_witness:
  "fs_ready fresh_fs
   \<and> fst (main Map.empty
        (registry_of token_reply (doms_reply [PyStr ''svc-a''])
           (\<lambda>s. hosts_reply [PyDict [(''ip'', PyStr ''10.0.0.5''), (''port'', PyInt 8080)]]))
        fresh_fs) = Inr ()
   \<and> files (fst (snd (main Map.empty
        (registry_of token_reply (doms_reply [PyStr ''svc-a''])
           (\<lambda>s. hosts_reply [PyDict [(''ip'', PyStr ''10.0.0.5''), (''port'', PyInt 8080)]]))
        fresh_fs))) working_file = Some svc_a_text
   \<and> files (fst (snd (main Map.empty
        (registry_of token_reply (doms_reply [PyStr ''svc-a''])
           (\<lambda>s. hosts_reply [PyDict [(''ip'', PyStr ''10.0.0.5''), (''port'', PyInt 8080)]]))
        fresh_fs))) watched_copy = Some svc_a_text"
proof -
  let ?kvs = "[(''ip'', PyStr ''10.0.0.5''), (''port'', PyInt 8080)]"
  let ?reg = "registry_of token_reply (doms_reply [PyStr ''svc-a''])
                (\<lambda>s. hosts_reply [PyDict ?kvs])"
  have auth: "fst (authenticate ?reg (NacosConfig_init Map.empty)) = Inr ()"
    by (rule registry_of_token_reply)
  have services:
    "fst (get_services ?reg (cycle_config Map.empty ?reg)) = Inr (PyList [PyStr ''svc-a''])"
    by (simp add: get_services_result services_request_def doms_reply_def)
  have instances:
    "fst (get_service_instances ?reg (cycle_config Map.empty ?reg) (PyStr ''svc-a''))
       = Inr (PyList [PyDict ?kvs])"
    by (simp add: get_service_instances_result instances_request_def hosts_reply_def)
  have ip: "map_of ?kvs ''ip'' = Some (PyStr ''10.0.0.5'')" and
    port: "map_of ?kvs ''port'' = Some (PyInt 8080)"
    by simp_all
  have ready: "fs_ready fresh_fs"
    by (simp add: fs_ready_def fresh_fs_def working_file_def watched_dir_def watched_copy_def)
  from cycle_single_instance_document [OF auth services instances ip port, of fresh_fs] ready
  show ?thesis
    by blast
qed

text \<open>
  C3.  When the instance lookup of exactly one enumerated service, \<open>bad\<close>, fails
  with a transport or HTTP error and every other service's lookup returns a list of
  records with ip and port, the failing lookup returns an empty sequence instead of
  raising, the cycle goes on, and its document holds the targets of the other
  services, in the order of the listing, and no target of \<open>bad\<close>; this document is
  what the cycle publishes.
\<close>

theorem one_failing_lookup_is_skipped:
  assumes auth: "fst (authenticate reg (NacosConfig_init env)) = Inr ()"
    and services:
      "fst (get_services reg (cycle_config env reg)) = Inr (PyList (pre @ bad # post))"
    and bad: "transport_or_http_error (reg (instances_request (cycle_config env reg) bad))"
    and others:
      "\<forall>s\<in>set (pre @ post).
         fst (get_service_instances reg (cycle_config env reg) s) = Inr (PyList (instances s))
         \<and> (\<forall>i\<in>set (instances s). has_field i ''ip'' \<and> has_field i ''port'')"
  shows "fst (get_service_instances reg (cycle_config env reg) bad) = Inr (PyList [])
       \<and> cycle_document env reg
           = Inr (concat (map (\<lambda>s. map (\<lambda>i. scrape_target i s) (instances s)) (pre @ post)))
       \<and> (\<forall>i. scrape_target i bad
              \<notin> set (concat (map (\<lambda>s. map (\<lambda>i. scrape_target i s) (instances s)) (pre @ post))))
       \<and> fst (main env reg fs)
           = fst (save_config
                    (concat (map (\<lambda>s. map (\<lambda>i. scrape_target i s) (instances s)) (pre @ post)))
                    working_file watched_dir fs)
       \<and> fst (snd (main env reg fs))
           = fst (snd (save_config
                    (concat (map (\<lambda>s. map (\<lambda>i. scrape_target i s) (instances s)) (pre @ post)))
                    working_file watched_dir fs))
       \<and> (fs_ready fs \<longrightarrow>
            fst (main env reg fs) = Inr ()
            \<and> files (fst (snd (main env reg fs))) working_file
                = Some (json_dumps (PyList
                    (concat (map (\<lambda>s. map (\<lambda>i. scrape_target i s) (instances s)) (pre @ post)))))
            \<and> files (fst (snd (main env reg fs))) watched_copy
                = Some (json_dumps (PyList
                    (concat (map (\<lambda>s. map (\<lambda>i. scrape_target i s) (instances s)) (pre @ post))))))"
proof -
  let ?config = "cycle_config env reg"
  let ?g = "\<lambda>s. map (\<lambda>i. scrape_target i s) (instances s)"
  let ?g' = "\<lambda>s. if s = bad then [] else ?g s"
  let ?doc = "concat (map ?g (pre @ post))"
  have empty: "fst (get_service_instances reg ?config bad) = Inr (PyList [])"
    using bad by (rule failing_lookup_is_empty)
  have bad_instances: "instances bad = []" if "bad \<in> set (pre @ post)"
    using others that empty by auto
  have same: "?g' s = ?g s" if "s \<in> set (pre @ post)" for s
    using that bad_instances by auto
  have each: "service_targets reg ?config s = Inr (?g' s)" if "s \<in> set (pre @ bad # post)" for s
  proof (cases "s = bad")
    case True
    with empty show ?thesis
      by (simp add: service_targets_def generate_target_config_def)
  next
    case False
    with that have s: "s \<in> set (pre @ post)"
      by auto
    with others have "service_targets reg ?config s = Inr (?g s)"
      by (intro service_targets_well_formed) auto
    with False show ?thesis
      by simp
  qed
  have same_map: "map ?g' (pre @ post) = map ?g (pre @ post)"
    using same by (intro map_cong) simp_all
  have "fst (main_loop reg ?config (pre @ bad # post) [])
          = Inr (concat (map ?g' (pre @ bad # post)))"
    using main_loop_ok [of "pre @ bad # post" reg ?config ?g' "[]"] each by simp
  also have "concat (map ?g' (pre @ bad # post)) = concat (map ?g' (pre @ post))"
    by simp
  also have "\<dots> = ?doc"
    by (simp only: same_map)
  finally have "fst (main_loop reg ?config (pre @ bad # post) []) = Inr ?doc" .
  with auth services have doc: "cycle_document env reg = Inr ?doc"
    by (simp add: cycle_document_of_names)
  have none: "scrape_target i bad \<notin> set ?doc" for i
  proof
    assume "scrape_target i bad \<in> set ?doc"
    then obtain s i' where s: "s \<in> set (pre @ post)" and i': "i' \<in> set (instances s)"
      and eq: "scrape_target i bad = scrape_target i' s"
      by auto
    from eq have "s = bad"
      by (auto dest: scrape_target_service)
    with s i' bad_instances show False
      by simp
  qed
  from empty doc none main_ready [OF doc, of fs] show ?thesis
    by (simp add: main_publishes main_publishes_filesystem)
qed

theorem one_failing_lookup_is_skipped_witness:
  "fst (get_service_instances three_services_registry
          (cycle_config Map.empty three_services_registry) (PyStr ''svc-b'')) = Inr (PyList [])
   \<and> cycle_document Map.empty three_services_registry
       = Inr [svc_a_target, scrape_target unhealthy_instance (PyStr ''svc-c'')]
   \<and> fst (main Map.empty three_services_registry fresh_fs) = Inr ()
   \<and> files (fst (snd (main Map.empty three_services_registry fresh_fs))) watched_copy
       = Some (json_dumps
           (PyList [svc_a_target, scrape_target unhealthy_instance (PyStr ''svc-c'')]))"
proof -
  let ?reg = three_services_registry
  let ?config = "cycle_config Map.empty ?reg"
  have auth: "fst (authenticate ?reg (NacosConfig_init Map.empty)) = Inr ()"
    unfolding three_services_registry_def by (rule registry_of_token_reply)
  have config: "?config = (NacosConfig_init Map.empty)\<lparr>token := PyStr ''tok''\<rparr>"
    unfolding three_services_registry_def by (rule registry_of_token_reply)
  have services:
    "fst (get_services ?reg ?config) = Inr (PyList ([PyStr ''svc-a''] @ PyStr ''svc-b'' # [PyStr ''svc-c'']))"
    by (simp add: config get_services_result services_request_def doms_reply_def
        three_services_registry_def)
  have bad: "transport_or_http_error (?reg (instances_request ?config (PyStr ''svc-b'')))"
    by (simp add: instances_request_def three_services_registry_def)
  have others:
    "\<forall>s\<in>set ([PyStr ''svc-a''] @ [PyStr ''svc-c'']).
       fst (get_service_instances ?reg ?config s) = Inr (PyList [unhealthy_instance])
       \<and> (\<forall>i\<in>set [unhealthy_instance]. has_field i ''ip'' \<and> has_field i ''port'')"
    by (simp add: get_service_instances_result instances_request_def hosts_reply_def
        three_services_registry_def unhealthy_instance_def)
  have target: "scrape_target unhealthy_instance (PyStr ''svc-a'') = svc_a_target"
    by (simp add: scrape_target_def Let_def unhealthy_instance_def svc_a_target_def
        show_int_8080)
  have ready: "fs_ready fresh_fs"
    by (simp add: fs_ready_def fresh_fs_def working_file_def watched_dir_def watched_copy_def)
  have doc:
    "concat (map (\<lambda>s. map (\<lambda>i. scrape_target i s) [unhealthy_instance])
        ([PyStr ''svc-a''] @ [PyStr ''svc-c'']))
       = [svc_a_target, scrape_target unhealthy_instance (PyStr ''svc-c'')]"
    using target by simp
  from one_failing_lookup_is_skipped
         [of ?reg Map.empty "[PyStr ''svc-a'']" "PyStr ''svc-b''" "[PyStr ''svc-c'']"
            "\<lambda>s. [unhealthy_instance]" fresh_fs, OF auth services bad others, unfolded doc]
    ready
  show ?thesis
    by blast
qed

text \<open>
  C5.  On an instance list in which every record has the fields \<open>ip\<close> and
  \<open>port\<close>, \<open>generate_target_config\<close> raises nothing.  On a list of records of
  which one lacks \<open>ip\<close> or \<open>port\<close> it raises the \<^verbatim>\<open>KeyError\<close> of the
  missing field; when that list is a service's instance list in a cycle that has come
  as far as this service, the cycle raises the same \<^verbatim>\<open>KeyError\<close> and leaves
  the file system as it found it.
\<close>

theorem missing_field_aborts_cycle:
  "((\<forall>i\<in>set instances. has_field i ''ip'' \<and> has_field i ''port'')
      \<longrightarrow> (\<exists>targets. generate_target_config (PyList instances) service_name = Inr targets))
   \<and> ((\<forall>i\<in>set instances. is_record i)
        \<and> (\<exists>i\<in>set instances. \<not> (has_field i ''ip'' \<and> has_field i ''port''))
      \<longrightarrow> generate_target_config (PyList instances) service_name
            \<in> {Inl (KeyError ''ip''), Inl (KeyError ''port'')})
   \<and> (fst (authenticate reg (NacosConfig_init env)) = Inr ()
        \<and> fst (get_services reg (cycle_config env reg)) = Inr (PyList (pre @ service_name # post))
        \<and> (\<forall>s\<in>set pre. \<exists>targets. service_targets reg (cycle_config env reg) s = Inr targets)
        \<and> fst (get_service_instances reg (cycle_config env reg) service_name)
            = Inr (PyList instances)
        \<and> (\<forall>i\<in>set instances. is_record i)
        \<and> (\<exists>i\<in>set instances. \<not> (has_field i ''ip'' \<and> has_field i ''port''))
      \<longrightarrow> fst (main env reg fs) \<in> {Inl (KeyError ''ip''), Inl (KeyError ''port'')}
          \<and> fst (snd (main env reg fs)) = fs)"
proof (intro conjI impI)
  assume "\<forall>i\<in>set instances. has_field i ''ip'' \<and> has_field i ''port''"
  then show "\<exists>targets. generate_target_config (PyList instances) service_name = Inr targets"
    by (simp add: generate_target_config_well_formed)
next
  assume "(\<forall>i\<in>set instances. is_record i)
        \<and> (\<exists>i\<in>set instances. \<not> (has_field i ''ip'' \<and> has_field i ''port''))"
  then show "generate_target_config (PyList instances) service_name
               \<in> {Inl (KeyError ''ip''), Inl (KeyError ''port'')}"
    by (intro generate_target_config_missing) simp_all
next
  assume h: "fst (authenticate reg (NacosConfig_init env)) = Inr ()
        \<and> fst (get_services reg (cycle_config env reg)) = Inr (PyList (pre @ service_name # post))
        \<and> (\<forall>s\<in>set pre. \<exists>targets. service_targets reg (cycle_config env reg) s = Inr targets)
        \<and> fst (get_service_instances reg (cycle_config env reg) service_name)
            = Inr (PyList instances)
        \<and> (\<forall>i\<in>set instances. is_record i)
        \<and> (\<exists>i\<in>set instances. \<not> (has_field i ''ip'' \<and> has_field i ''port''))"
  let ?config = "cycle_config env reg"
  from h obtain g where g: "\<forall>s\<in>set pre. service_targets reg ?config s = Inr (g s)"
    using bchoice [of "set pre" "\<lambda>s targets. service_targets reg ?config s = Inr targets"]
    by blast
  from h have "generate_target_config (PyList instances) service_name
                 \<in> {Inl (KeyError ''ip''), Inl (KeyError ''port'')}"
    by (intro generate_target_config_missing) simp_all
  then obtain k where k: "k = ''ip'' \<or> k = ''port''"
    and gen: "generate_target_config (PyList instances) service_name = Inl (KeyError k)"
    by auto
  from h gen have "service_targets reg ?config service_name = Inl (KeyError k)"
    by (simp add: service_targets_def)
  with g have "fst (main_loop reg ?config (pre @ service_name # post) []) = Inl (KeyError k)"
    by (intro main_loop_error [where g = g]) simp_all
  with h have doc: "cycle_document env reg = Inl (KeyError k)"
    by (simp add: cycle_document_of_names)
  from doc k show "fst (main env reg fs) \<in> {Inl (KeyError ''ip''), Inl (KeyError ''port'')}"
    by (auto simp: main_publishes)
  from doc show "fst (snd (main env reg fs)) = fs"
    by (simp add: main_publishes_filesystem)
qed

theorem missing_field_aborts_cycle_witness:
  "(\<exists>targets. generate_target_config (PyList [unhealthy_instance]) (PyStr ''svc-a'') = Inr targets)
   \<and> generate_target_config (PyList [PyDict [(''ip'', PyStr ''10.0.0.5'')]]) (PyStr ''svc-a'')
       \<in> {Inl (KeyError ''ip''), Inl (KeyError ''port'')}
   \<and> fst (main Map.empty
         (registry_of token_reply (doms_reply [PyStr ''svc-a''])
            (\<lambda>s. hosts_reply [PyDict [(''ip'', PyStr ''10.0.0.5'')]])) fresh_fs)
       \<in> {Inl (KeyError ''ip''), Inl (KeyError ''port'')}
   \<and> fst (snd (main Map.empty
         (registry_of token_reply (doms_reply [PyStr ''svc-a''])
            (\<lambda>s. hosts_reply [PyDict [(''ip'', PyStr ''10.0.0.5'')]])) fresh_fs)) = fresh_fs"
proof -
  let ?no_port = "PyDict [(''ip'', PyStr ''10.0.0.5'')]"
  let ?reg = "registry_of token_reply (doms_reply [PyStr ''svc-a'']) (\<lambda>s. hosts_reply [?no_port])"
  let ?config = "cycle_config Map.empty ?reg"
  have fields: "\<forall>i\<in>set [unhealthy_instance]. has_field i ''ip'' \<and> has_field i ''port''"
    by (simp add: unhealthy_instance_def)
  have records: "\<forall>i\<in>set [?no_port]. is_record i"
    by simp
  have missing: "\<exists>i\<in>set [?no_port]. \<not> (has_field i ''ip'' \<and> has_field i ''port'')"
    by simp
  have auth: "fst (authenticate ?reg (NacosConfig_init Map.empty)) = Inr ()"
    by (rule registry_of_token_reply)
  have services:
    "fst (get_services ?reg ?config) = Inr (PyList ([] @ PyStr ''svc-a'' # []))"
    by (simp add: get_services_result services_request_def doms_reply_def)
  have pre: "\<forall>s\<in>set []. \<exists>targets. service_targets ?reg ?config s = Inr targets"
    by simp
  have lookup: "fst (get_service_instances ?reg ?config (PyStr ''svc-a'')) = Inr (PyList [?no_port])"
    by (simp add: get_service_instances_result instances_request_def hosts_reply_def)
  from missing_field_aborts_cycle [of "[unhealthy_instance]" "PyStr ''svc-a''"] fields
  have 1: "\<exists>targets. generate_target_config (PyList [unhealthy_instance]) (PyStr ''svc-a'')
             = Inr targets"
    by blast
  note inst = missing_field_aborts_cycle
    [of "[?no_port]" "PyStr ''svc-a''" ?reg Map.empty "[]" "[]" fresh_fs]
  from inst records missing
  have 2: "generate_target_config (PyList [?no_port]) (PyStr ''svc-a'')
             \<in> {Inl (KeyError ''ip''), Inl (KeyError ''port'')}"
    by blast
  from inst auth services pre lookup records missing
  have 3: "fst (main Map.empty ?reg fresh_fs) \<in> {Inl (KeyError ''ip''), Inl (KeyError ''port'')}
         \<and> fst (snd (main Map.empty ?reg fresh_fs)) = fresh_fs"
    by blast
  from 1 2 3 show ?thesis
    by blast
qed

text \<open>
  C8.  A cycle that succeeds against a registry state, run again against the same
  state on the file system it has left, succeeds again and leaves the file system as
  it is.  The text it writes is the rendering of the document of the cycle, which is
  a function of the environment and the registry state alone: every successful cycle
  against this state, from whatever file system, leaves the same content in the
  working file and in the copy.
\<close>

theorem consecutive_cycles_same_document:
  assumes "fst (main env reg fs) = Inr ()"
  shows "fst (main env reg (fst (snd (main env reg fs)))) = Inr ()
       \<and> fst (snd (main env reg (fst (snd (main env reg fs))))) = fst (snd (main env reg fs))
       \<and> (\<exists>doc. cycle_document env reg = Inr doc
             \<and> files (fst (snd (main env reg fs))) working_file = Some (json_dumps (PyList doc)))
       \<and> (\<forall>fs'. fst (main env reg fs') = Inr () \<longrightarrow>
             files (fst (snd (main env reg fs'))) working_file
               = files (fst (snd (main env reg fs))) working_file
             \<and> files (fst (snd (main env reg fs')))
                 (copy_destination (fst (snd (main env reg fs'))) working_file watched_copy)
               = files (fst (snd (main env reg fs)))
                 (copy_destination (fst (snd (main env reg fs))) working_file watched_copy))"
proof -
  from main_success_document [OF assms] obtain doc where
    doc: "cycle_document env reg = Inr doc" and
    ok: "fst (save_config doc working_file watched_dir fs) = Inr ()" and
    fs: "fst (snd (main env reg fs)) = fst (snd (save_config doc working_file watched_dir fs))"
    by blast
  let ?text = "Some (json_dumps (PyList doc))"
  have content: "files (fst (snd (main env reg fs0))) working_file = ?text
      \<and> files (fst (snd (main env reg fs0)))
          (copy_destination (fst (snd (main env reg fs0))) working_file watched_copy) = ?text"
    if "fst (main env reg fs0) = Inr ()" for fs0
  proof -
    from that doc have "fst (save_config doc working_file watched_dir fs0) = Inr ()"
      by (simp add: main_publishes)
    from save_config_success [OF this] doc show ?thesis
      by (simp add: main_publishes_filesystem watched_copy_path)
  qed
  from save_config_again [OF ok] doc fs
  have again: "fst (main env reg (fst (snd (main env reg fs)))) = Inr ()
       \<and> fst (snd (main env reg (fst (snd (main env reg fs))))) = fst (snd (main env reg fs))"
    by (simp add: main_publishes main_publishes_filesystem)
  show ?thesis
  proof (intro conjI allI impI exI [of _ doc])
    show "fst (main env reg (fst (snd (main env reg fs)))) = Inr ()"
      using again by (rule conjunct1)
    show "fst (snd (main env reg (fst (snd (main env reg fs))))) = fst (snd (main env reg fs))"
      using again by (rule conjunct2)
    show "cycle_document env reg = Inr doc"
      by (rule doc)
    show "files (fst (snd (main env reg fs))) working_file = ?text"
      using content [OF assms] by (rule conjunct1)
  next
    fix fs'
    assume fs': "fst (main env reg fs') = Inr ()"
    from content [OF fs'] content [OF assms]
    show "files (fst (snd (main env reg fs'))) working_file
            = files (fst (snd (main env reg fs))) working_file"
      by (simp only:)
    from content [OF fs'] content [OF assms]
    show "files (fst (snd (main env reg fs')))
            (copy_destination (fst (snd (main env reg fs'))) working_file watched_copy)
          = files (fst (snd (main env reg fs)))
            (copy_destination (fst (snd (main env reg fs))) working_file watched_copy)"
      by (simp only:)
  qed
qed

theorem consecutive_cycles_same_document_witness:
  "fst (main Map.empty three_services_registry fresh_fs) = Inr ()
   \<and> fst (main Map.empty three_services_registry
         (fst (snd (main Map.empty three_services_registry fresh_fs)))) = Inr ()
   \<and> fst (snd (main Map.empty three_services_registry
         (fst (snd (main Map.empty three_services_registry fresh_fs)))))
       = fst (snd (main Map.empty three_services_registry fresh_fs))
   \<and> files (fst (snd (main Map.empty three_services_registry
         (fst (snd (main Map.empty three_services_registry fresh_fs)))))) working_file
       = files (fst (snd (main Map.empty three_services_registry fresh_fs))) working_file"
proof -
  let ?reg = three_services_registry
  let ?config = "cycle_config Map.empty ?reg"
  have auth: "fst (authenticate ?reg (NacosConfig_init Map.empty)) = Inr ()"
    unfolding three_services_registry_def by (rule registry_of_token_reply)
  have config: "?config = (NacosConfig_init Map.empty)\<lparr>token := PyStr ''tok''\<rparr>"
    unfolding three_services_registry_def by (rule registry_of_token_reply)
  have services:
    "fst (get_services ?reg ?config)
       = Inr (PyList [PyStr ''svc-a'', PyStr ''svc-b'', PyStr ''svc-c''])"
    by (simp add: config get_services_result services_request_def doms_reply_def
        three_services_registry_def)
  have each: "service_targets ?reg ?config s
                = Inr (if s = PyStr ''svc-b'' then [] else [scrape_target unhealthy_instance s])"
    for s
    by (simp add: service_targets_def get_service_instances_result instances_request_def
        hosts_reply_def three_services_registry_def generate_target_config_def
        make_target_well_formed unhealthy_instance_def)
  have "\<exists>doc. fst (main_loop ?reg ?config [PyStr ''svc-a'', PyStr ''svc-b'', PyStr ''svc-c''] [])
                = Inr doc"
    using main_loop_ok [of "[PyStr ''svc-a'', PyStr ''svc-b'', PyStr ''svc-c'']" ?reg ?config
        "\<lambda>s. if s = PyStr ''svc-b'' then [] else [scrape_target unhealthy_instance s]" "[]"] each
    by simp
  with auth services obtain doc where doc: "cycle_document Map.empty ?reg = Inr doc"
    by (auto simp: cycle_document_of_names)
  have ready: "fs_ready fresh_fs"
    by (simp add: fs_ready_def fresh_fs_def working_file_def watched_dir_def watched_copy_def)
  from main_ready [OF doc ready] have first: "fst (main Map.empty ?reg fresh_fs) = Inr ()"
    by simp
  from consecutive_cycles_same_document [OF first]
  have "fst (main Map.empty ?reg (fst (snd (main Map.empty ?reg fresh_fs)))) = Inr ()"
    and "fst (snd (main Map.empty ?reg (fst (snd (main Map.empty ?reg fresh_fs)))))
           = fst (snd (main Map.empty ?reg fresh_fs))"
    by blast+
  with first show ?thesis
    by (simp only: simp_thms)
qed

text \<open>
  C9.  The claim that every response with a 2xx status whose JSON body lacks the
  field gives an empty sequence fails when the body is not a JSON object: a body that
  is an array or \<^verbatim>\<open>null\<close> has no method \<^verbatim>\<open>get\<close>, the
  \<^verbatim>\<open>AttributeError\<close> passes the handler of \<^verbatim>\<open>RequestException\<close>,
  and the cycle raises it.
\<close>

theorem fieldless_body_counterexample:
  "registry_of token_reply (Reply 200 (Json (PyList []))) (\<lambda>s. hosts_reply [])
      (services_request (cycle_config Map.empty
         (registry_of token_reply (Reply 200 (Json (PyList []))) (\<lambda>s. hosts_reply []))))
     = Reply 200 (Json (PyList []))
   \<and> py_get (PyList []) ''doms'' (PyList []) = Inl AttributeError
   \<and> fst (get_services
         (registry_of token_reply (Reply 200 (Json (PyList []))) (\<lambda>s. hosts_reply []))
         (cycle_config Map.empty
            (registry_of token_reply (Reply 200 (Json (PyList []))) (\<lambda>s. hosts_reply []))))
       = Inl AttributeError
   \<and> fst (main Map.empty
         (registry_of token_reply (Reply 200 (Json (PyList []))) (\<lambda>s. hosts_reply []))
         fresh_fs) = Inl AttributeError
   \<and> fst (get_service_instances
         (registry_of token_reply (doms_reply [PyStr ''svc-a'']) (\<lambda>s. Reply 200 (Json PyNone)))
         (cycle_config Map.empty
            (registry_of token_reply (doms_reply [PyStr ''svc-a''])
               (\<lambda>s. Reply 200 (Json PyNone))))
         (PyStr ''svc-a'')) = Inl AttributeError
   \<and> fst (main Map.empty
         (registry_of token_reply (doms_reply [PyStr ''svc-a'']) (\<lambda>s. Reply 200 (Json PyNone)))
         fresh_fs) = Inl AttributeError"
proof -
  let ?r1 = "registry_of token_reply (Reply 200 (Json (PyList []))) (\<lambda>s. hosts_reply [])"
  let ?r2 = "registry_of token_reply (doms_reply [PyStr ''svc-a''])
               (\<lambda>s. Reply 200 (Json PyNone))"
  have auth1: "fst (authenticate ?r1 (NacosConfig_init Map.empty)) = Inr ()"
    by (rule registry_of_token_reply)
  have auth2: "fst (authenticate ?r2 (NacosConfig_init Map.empty)) = Inr ()"
    by (rule registry_of_token_reply)
  have answer: "?r1 (services_request (cycle_config Map.empty ?r1)) = Reply 200 (Json (PyList []))"
    by (simp add: services_request_def)
  have services1: "fst (get_services ?r1 (cycle_config Map.empty ?r1)) = Inl AttributeError"
    by (simp add: get_services_result answer)
  from auth1 services1 have main1: "fst (main Map.empty ?r1 fresh_fs) = Inl AttributeError"
    by (simp add: main_result)
  have services2:
    "fst (get_services ?r2 (cycle_config Map.empty ?r2)) = Inr (PyList ([] @ PyStr ''svc-a'' # []))"
    by (simp add: get_services_result services_request_def doms_reply_def)
  have lookup: "fst (get_service_instances ?r2 (cycle_config Map.empty ?r2) (PyStr ''svc-a''))
                  = Inl AttributeError"
    by (simp add: get_service_instances_result instances_request_def)
  then have "service_targets ?r2 (cycle_config Map.empty ?r2) (PyStr ''svc-a'')
               = Inl AttributeError"
    by (simp add: service_targets_def)
  then have "fst (main_loop ?r2 (cycle_config Map.empty ?r2) ([] @ PyStr ''svc-a'' # []) [])
               = Inl AttributeError"
    by (intro main_loop_error [where g = "\<lambda>s. []"]) simp_all
  with auth2 services2 have "cycle_document Map.empty ?r2 = Inl AttributeError"
    by (simp add: cycle_document_of_names)
  then have main2: "fst (main Map.empty ?r2 fresh_fs) = Inl AttributeError"
    by (simp add: main_publishes)
  from answer services1 main1 lookup main2 show ?thesis
    by simp
qed

text \<open>
  C9, as amended.  A response with a 2xx status whose body is a JSON object without
  the field \<open>doms\<close> makes \<open>get_services\<close> return the empty list, and one whose
  body is a JSON object without \<open>hosts\<close> makes \<open>get_service_instances\<close> return
  the empty list: neither raises.  The result is the one a transport or HTTP error
  gives, and result and log are the ones a body with an empty array in the field
  gives.
\<close>

theorem fieldless_body_is_empty_result:
  "(reg (services_request config) = Reply st (Json (PyDict kvs))
      \<and> 200 \<le> st \<and> st < 300 \<and> map_of kvs ''doms'' = None
    \<longrightarrow> get_services reg config = (Inr (PyList []), [LogInfo ''Retrieved 0 services''])
        \<and> (\<forall>reg'. transport_or_http_error (reg' (services_request config))
              \<longrightarrow> fst (get_services reg' config) = fst (get_services reg config))
        \<and> (\<forall>reg'. reg' (services_request config)
                      = Reply st (Json (PyDict ((''doms'', PyList []) # kvs)))
              \<longrightarrow> get_services reg' config = get_services reg config))
   \<and> (reg (instances_request config s) = Reply st' (Json (PyDict kvs'))
      \<and> 200 \<le> st' \<and> st' < 300 \<and> map_of kvs' ''hosts'' = None
    \<longrightarrow> get_service_instances reg config s
          = (Inr (PyList []),
             [LogInfo (''Retrieved 0 instances for service '' @ py_str s)])
        \<and> (\<forall>reg'. transport_or_http_error (reg' (instances_request config s))
              \<longrightarrow> fst (get_service_instances reg' config s)
                  = fst (get_service_instances reg config s))
        \<and> (\<forall>reg'. reg' (instances_request config s)
                      = Reply st' (Json (PyDict ((''hosts'', PyList []) # kvs')))
              \<longrightarrow> get_service_instances reg' config s = get_service_instances reg config s))"
proof (intro conjI impI)
  assume h: "reg (services_request config) = Reply st (Json (PyDict kvs))
      \<and> 200 \<le> st \<and> st < 300 \<and> map_of kvs ''doms'' = None"
  then have r: "get_services reg config = (Inr (PyList []), [LogInfo ''Retrieved 0 services''])"
    by (simp add: get_services_def get_services_Reply [of reg config st kvs] show_nat_0)
  show "get_services reg config = (Inr (PyList []), [LogInfo ''Retrieved 0 services''])"
    by (rule r)
  show "\<forall>reg'. transport_or_http_error (reg' (services_request config))
              \<longrightarrow> fst (get_services reg' config) = fst (get_services reg config)"
    by (simp add: r failing_enumeration_is_empty)
  show "\<forall>reg'. reg' (services_request config)
                      = Reply st (Json (PyDict ((''doms'', PyList []) # kvs)))
              \<longrightarrow> get_services reg' config = get_services reg config"
  proof (intro allI impI)
    fix reg'
    assume "reg' (services_request config) = Reply st (Json (PyDict ((''doms'', PyList []) # kvs)))"
    with h have "get_services reg' config
                   = (Inr (PyList []), [LogInfo ''Retrieved 0 services''])"
      by (simp add: get_services_def
          get_services_Reply [of reg' config st "(''doms'', PyList []) # kvs"] show_nat_0)
    then show "get_services reg' config = get_services reg config"
      by (simp only: r)
  qed
next
  assume h: "reg (instances_request config s) = Reply st' (Json (PyDict kvs'))
      \<and> 200 \<le> st' \<and> st' < 300 \<and> map_of kvs' ''hosts'' = None"
  then have r: "get_service_instances reg config s
          = (Inr (PyList []), [LogInfo (''Retrieved 0 instances for service '' @ py_str s)])"
    by (simp add: get_service_instances_def get_service_instances_Reply [of reg config s st' kvs']
        show_nat_0)
  show "get_service_instances reg config s
          = (Inr (PyList []), [LogInfo (''Retrieved 0 instances for service '' @ py_str s)])"
    by (rule r)
  show "\<forall>reg'. transport_or_http_error (reg' (instances_request config s))
              \<longrightarrow> fst (get_service_instances reg' config s)
                  = fst (get_service_instances reg config s)"
    by (simp add: r failing_lookup_is_empty)
  show "\<forall>reg'. reg' (instances_request config s)
                      = Reply st' (Json (PyDict ((''hosts'', PyList []) # kvs')))
              \<longrightarrow> get_service_instances reg' config s = get_service_instances reg config s"
  proof (intro allI impI)
    fix reg'
    assume "reg' (instances_request config s)
              = Reply st' (Json (PyDict ((''hosts'', PyList []) # kvs')))"
    with h have "get_service_instances reg' config s
                   = (Inr (PyList []),
                      [LogInfo (''Retrieved 0 instances for service '' @ py_str s)])"
      by (simp add: get_service_instances_def
          get_service_instances_Reply [of reg' config s st' "(''hosts'', PyList []) # kvs'"]
          show_nat_0)
    then show "get_service_instances reg' config s = get_service_instances reg config s"
      by (simp only: r)
  qed
qed

theorem fieldless_body_is_empty_result_witness:
  "get_services (registry_of token_reply (Reply 200 (Json (PyDict [(''count'', PyInt 0)])))
       (\<lambda>s. Reply 200 (Json (PyDict [])))) (NacosConfig_init Map.empty)
     = (Inr (PyList []), [LogInfo ''Retrieved 0 services''])
   \<and> fst (get_services (registry_of token_reply ConnectionFailed (\<lambda>s. ConnectionFailed))
       (NacosConfig_init Map.empty))
     = fst (get_services (registry_of token_reply (Reply 200 (Json (PyDict [(''count'', PyInt 0)])))
       (\<lambda>s. Reply 200 (Json (PyDict [])))) (NacosConfig_init Map.empty))
   \<and> get_service_instances (registry_of token_reply (Reply 200 (Json (PyDict [(''count'', PyInt 0)])))
       (\<lambda>s. Reply 200 (Json (PyDict [])))) (NacosConfig_init Map.empty) (PyStr ''svc-a'')
     = (Inr (PyList []), [LogInfo ''Retrieved 0 instances for service svc-a''])
   \<and> fst (get_service_instances (registry_of token_reply ConnectionFailed (\<lambda>s. ConnectionFailed))
       (NacosConfig_init Map.empty) (PyStr ''svc-a''))
     = fst (get_service_instances
       (registry_of token_reply (Reply 200 (Json (PyDict [(''count'', PyInt 0)])))
       (\<lambda>s. Reply 200 (Json (PyDict [])))) (NacosConfig_init Map.empty) (PyStr ''svc-a''))"
proof -
  let ?reg = "registry_of token_reply (Reply 200 (Json (PyDict [(''count'', PyInt 0)])))
       (\<lambda>s. Reply 200 (Json (PyDict [])))"
  let ?down = "registry_of token_reply ConnectionFailed (\<lambda>s. ConnectionFailed)"
  let ?c = "NacosConfig_init Map.empty"
  have a: "?reg (services_request ?c) = Reply 200 (Json (PyDict [(''count'', PyInt 0)]))
      \<and> (200::int) \<le> 200 \<and> (200::int) < 300 \<and> map_of [(''count'', PyInt 0)] ''doms'' = None"
    by (simp add: services_request_def)
  have b: "?reg (instances_request ?c (PyStr ''svc-a'')) = Reply 200 (Json (PyDict []))
      \<and> (200::int) \<le> 200 \<and> (200::int) < 300 \<and> map_of [] ''hosts'' = (None :: pyval option)"
    by (simp add: instances_request_def)
  have c: "transport_or_http_error (?down (services_request ?c))"
    by (simp add: services_request_def)
  have d: "transport_or_http_error (?down (instances_request ?c (PyStr ''svc-a'')))"
    by (simp add: instances_request_def)
  note inst = fieldless_body_is_empty_result
    [of ?reg ?c 200 "[(''count'', PyInt 0)]" "PyStr ''svc-a''" 200 "[]"]
  from inst a c
  have 1: "get_services ?reg ?c = (Inr (PyList []), [LogInfo ''Retrieved 0 services''])"
    and 2: "fst (get_services ?down ?c) = fst (get_services ?reg ?c)"
    by blast+
  from inst b d
  have 3: "get_service_instances ?reg ?c (PyStr ''svc-a'')
             = (Inr (PyList []),
                [LogInfo (''Retrieved 0 instances for service '' @ py_str (PyStr ''svc-a''))])"
    and 4: "fst (get_service_instances ?down ?c (PyStr ''svc-a''))
             = fst (get_service_instances ?reg ?c (PyStr ''svc-a''))"
    by blast+
  from 3 have instances_line: "get_service_instances ?reg ?c (PyStr ''svc-a'')
             = (Inr (PyList []), [LogInfo ''Retrieved 0 instances for service svc-a''])"
    by simp
  from 1 2 instances_line 4 show ?thesis
    by (simp only: simp_thms)
qed

end
